theory Spec2Isabelle
  imports Complex_Main "HOL-Library.Sublist"
begin

section \<open>JavaScript values used by the services\<close>

text \<open>
  A possibly \<open>undefined\<close> JavaScript value is an \<open>option\<close>; \<open>None\<close> is \<open>undefined\<close>.
  Numbers that the code only ever produces by \<open>parseInt\<close> and counting are \<open>int\<close>.
\<close>

definition truthy :: "string option \<Rightarrow> bool" where
  "truthy v = (case v of None \<Rightarrow> False | Some s \<Rightarrow> s \<noteq> [])"

text \<open>\<open>a || b\<close> on possibly undefined strings.\<close>

definition js_or :: "string option \<Rightarrow> string option \<Rightarrow> string option" where
  "js_or a b = (if truthy a then a else b)"

text \<open>A value interpolated into a template literal: \<open>undefined\<close> prints as its name.\<close>

definition interp :: "string option \<Rightarrow> string" where
  "interp v = (case v of None \<Rightarrow> ''undefined'' | Some s \<Rightarrow> s)"

definition digit_char :: "nat \<Rightarrow> char" where
  "digit_char d = ''0123456789'' ! d"

text \<open>
  A number printed in a template literal: the decimal digits, least significant digit
  produced first and pushed in front of the ones already there.
\<close>

function nat_digits :: "nat \<Rightarrow> string \<Rightarrow> string" where
  "nat_digits n acc =
     (let acc' = digit_char (n mod 10) # acc in
      if n div 10 = 0 then acc' else nat_digits (n div 10) acc')"
  by pat_completeness auto
termination
  by (relation "measure (\<lambda>(n, acc). n)") auto

declare nat_digits.simps [simp del]

definition num_to_string :: "int \<Rightarrow> string" where
  "num_to_string i =
     (if 0 \<le> i then nat_digits (nat i) [] else CHR ''-'' # nat_digits (nat (- i)) [])"

text \<open>\<open>s.includes(sub)\<close> and \<open>s.startsWith(p)\<close>.\<close>

fun str_includes :: "string \<Rightarrow> string \<Rightarrow> bool" where
  "str_includes [] sub = (sub = [])"
| "str_includes (c # cs) sub = (prefix sub (c # cs) \<or> str_includes cs sub)"

definition startsWith :: "string \<Rightarrow> string \<Rightarrow> bool" where
  "startsWith s p = prefix p s"

text \<open>\<open>k && k.startsWith(p)\<close> for a key that may be undefined.\<close>

definition key_startsWith :: "string option \<Rightarrow> string \<Rightarrow> bool" where
  "key_startsWith k p = (case k of None \<Rightarrow> False | Some t \<Rightarrow> startsWith t p)"

definition NL :: string where
  "NL = [CHR 0x0A]"

section \<open>aiService.js: results and fallback templates\<close>

record resource =
  res_type :: string
  res_title :: string

record plan_day =
  day :: int
  title :: string
  objectives :: "string list"
  overview :: string
  keyPoints :: "string list"
  examples :: "string list"
  exercises :: "string list"
  resources :: "resource list"
  totalTime :: int

record quiz_question =
  question :: string
  options :: "string list"
  correct :: int
  explanation :: string

datatype content = Text string | Plan "plan_day list" | Quiz "quiz_question list" | NoContent

record gen_result =
  success :: bool
  content :: content
  error :: "string option"
  usage :: "nat option"
  fallback :: bool

text \<open>
  \<open>generateFallbackStudyPlan\<close>: the difficulty of a day. The source compares the day
  number with \<open>durationInDays / 3\<close> and \<open>(durationInDays * 2) / 3\<close>, a division of
  numbers, not an integer division.
\<close>

definition difficulty_of :: "int \<Rightarrow> int \<Rightarrow> string" where
  "difficulty_of d dy =
     (if (of_int dy :: rat) \<le> of_int d / 3 then ''Basic''
      else if (of_int dy :: rat) \<le> (of_int d * 2) / 3 then ''Intermediate''
      else ''Advanced'')"

definition plan_entry :: "string \<Rightarrow> string option \<Rightarrow> int \<Rightarrow> string option \<Rightarrow> int \<Rightarrow> plan_day" where
  \<open>plan_entry subject level d learningStyle dy =
     (let difficulty = difficulty_of d dy; n = num_to_string dy in
      \<lparr> day = dy,
        title = ''Day '' @ n @ '': '' @ subject @ '' - '' @ difficulty @ '' Concepts'',
        objectives =
          [''Master fundamentals for Day '' @ n,
           ''Apply '' @ difficulty @ '' '' @ subject @ '' concepts'',
           ''Do practical exercises'',
           ''Prepare for next stage''],
        overview = ''Day '' @ n @ '' focuses on '' @ difficulty @ '' '' @ subject
           @ '' concepts at '' @ interp level @ '' level with '' @ interp learningStyle
           @ '' learning approach.'',
        keyPoints = [''Concept '' @ n @ ''-1'', ''Concept '' @ n @ ''-2''],
        examples = [''Example '' @ n @ ''-1'', ''Example '' @ n @ ''-2''],
        exercises = [''Exercise '' @ n @ ''-1'', ''Exercise '' @ n @ ''-2''],
        resources = [\<lparr> res_type = ''article'', res_title = subject @ '' Guide Day '' @ n \<rparr>],
        totalTime = 120 \<rparr>)\<close>

text \<open>The \<open>for (let day = 1; day <= durationInDays; day++)\<close> loop, pushing one entry a day.\<close>

function plan_loop ::
  "string \<Rightarrow> string option \<Rightarrow> int \<Rightarrow> string option \<Rightarrow> int \<Rightarrow> plan_day list \<Rightarrow> plan_day list" where
  "plan_loop subject level d learningStyle dy plan =
     (if dy \<le> d
      then plan_loop subject level d learningStyle (dy + 1)
             (plan @ [plan_entry subject level d learningStyle dy])
      else plan)"
  by pat_completeness auto
termination
  by (relation "measure (\<lambda>(subject, level, d, learningStyle, dy, plan). nat (d + 1 - dy))") auto

declare plan_loop.simps [simp del]

text \<open>
  With \<open>durationInDays\<close> undefined the loop condition \<open>day <= undefined\<close> is false at once
  and the plan is empty.
\<close>

definition generateFallbackStudyPlan ::
  "string \<Rightarrow> string option \<Rightarrow> int option \<Rightarrow> string option \<Rightarrow> plan_day list" where
  "generateFallbackStudyPlan subject level durationInDays learningStyle =
     (case durationInDays of
        None \<Rightarrow> []
      | Some d \<Rightarrow> plan_loop subject level d learningStyle 1 [])"

definition quiz_entry :: "string \<Rightarrow> string option \<Rightarrow> int \<Rightarrow> quiz_question" where
  \<open>quiz_entry topic difficulty i =
     \<lparr> question = ''What is a key '' @ topic @ '' concept at '' @ interp difficulty @ '' level?'',
       options =
         [''Correct '' @ topic @ '' concept '' @ num_to_string i,
          ''Wrong option A'',
          ''Wrong option B'',
          ''Wrong option C''],
       correct = 0,
       explanation = ''This represents a fundamental '' @ topic @ '' '' @ interp difficulty
          @ '' concept.'' \<rparr>\<close>

function quiz_loop ::
  "string \<Rightarrow> string option \<Rightarrow> int \<Rightarrow> int \<Rightarrow> quiz_question list \<Rightarrow> quiz_question list" where
  "quiz_loop topic difficulty count i questions =
     (if i \<le> count
      then quiz_loop topic difficulty count (i + 1) (questions @ [quiz_entry topic difficulty i])
      else questions)"
  by pat_completeness auto
termination
  by (relation "measure (\<lambda>(topic, difficulty, count, i, questions). nat (count + 1 - i))") auto

declare quiz_loop.simps [simp del]

definition generateFallbackQuiz ::
  "string \<Rightarrow> string option \<Rightarrow> int option \<Rightarrow> quiz_question list" where
  "generateFallbackQuiz topic difficulty count =
     (case count of
        None \<Rightarrow> []
      | Some c \<Rightarrow> quiz_loop topic difficulty c 1 [])"

definition generateFallbackExplanation :: "string \<Rightarrow> string option \<Rightarrow> string" where
  \<open>generateFallbackExplanation concept level =
     ''# Understanding '' @ concept @ '' ('' @ interp level @ '')'' @ NL
     @ NL
     @ ''## Overview'' @ NL
     @ concept @ '' is an important idea in its domain. At '' @ interp level
     @ '' level, you need both theory and applications.'' @ NL
     @ NL
     @ ''## Key Principles'' @ NL
     @ ''- Definition and meaning'' @ NL
     @ ''- Applications'' @ NL
     @ ''- Importance'' @ NL
     @ ''- Practical use'' @ NL
     @ NL
     @ ''## Real-World Examples'' @ NL
     @ ''- Simple applications'' @ NL
     @ ''- Advanced use'' @ NL
     @ ''- Industry cases'' @ NL
     @ ''- Problem solving'' @ NL
     @ NL
     @ ''## Misconceptions'' @ NL
     @ ''- It's not only theory'' @ NL
     @ ''- Practical relevance matters'' @ NL
     @ ''- Builds on basics'' @ NL
     @ ''- Requires practice'' @ NL
     @ NL
     @ ''## Next Steps'' @ NL
     @ ''- Do exercises'' @ NL
     @ ''- Explore related ideas'' @ NL
     @ ''- Apply in projects'' @ NL
     @ ''- Review regularly''\<close>

text \<open>
  \<open>generateStructuredFallback\<close> passes the prompt alone to the three generators, so
  their other parameters are \<open>undefined\<close> there.
\<close>

definition generateStructuredFallback :: "string \<Rightarrow> content" where
  \<open>generateStructuredFallback prompt =
     (if str_includes prompt ''study plan'' then Plan (generateFallbackStudyPlan prompt None None None)
      else if str_includes prompt ''quiz'' then Quiz (generateFallbackQuiz prompt None None)
      else if str_includes prompt ''explain'' \<or> str_includes prompt ''concept''
        then Text (generateFallbackExplanation prompt None)
      else Text (''Based on your request, here's a structured fallback response:'' @ NL
        @ ''        '' @ NL
        @ ''- Focus on understanding fundamental concepts'' @ NL
        @ ''- Apply learning practically'' @ NL
        @ ''- Practice and review consistently'' @ NL
        @ ''- Break down complex topics into smaller parts''))\<close>

section \<open>aiService.js: the providers\<close>

text \<open>
  What the service reads from outside: the two API keys of the process environment,
  whether the Groq SDK constructor throws, and the outcome of each provider request
  (the error of a rejected promise, or the response object). The logger calls have no
  effect on any result and are left out.
\<close>

record gen_options =
  temperature :: "rat option"
  maxTokens :: "int option"
  topP :: "rat option"
  topK :: "int option"

record chat_message =
  msg_content :: "string option"

record choice =
  choice_message :: "chat_message option"
  choice_text :: "string option"

record chat_completion =
  choices :: "choice list option"
  cc_usage :: "nat option"

record part =
  part_text :: "string option"

record candidate_content =
  parts :: "part list option"

record candidate =
  cand_content :: "candidate_content option"

record gemini_data =
  candidates :: "candidate list option"
  usageMetadata :: "nat option"

record axios_error =
  response_error_message :: "string option"
  err_message :: string

record ai_world =
  GROQ_API_KEY :: "string option"
  GEMINI_API_KEY :: "string option"
  groq_constructor_throws :: bool
  groq_create :: "string \<Rightarrow> gen_options \<Rightarrow> string + chat_completion"
  axios_post :: "string \<Rightarrow> gen_options \<Rightarrow> axios_error + gemini_data"

text \<open>
  The service object: \<open>groq\<close> is whether \<open>this.groq\<close> holds a client; \<open>geminiApiKey\<close>
  is \<open>None\<close> while \<open>this.geminiConfig\<close> is null and otherwise holds its \<open>apiKey\<close>.
\<close>

record ai_service =
  groq :: bool
  geminiApiKey :: "string option option"
  initialized :: bool

definition AIService_new :: ai_service where
  "AIService_new = \<lparr> groq = False, geminiApiKey = None, initialized = False \<rparr>"

definition initializeServices :: "ai_world \<Rightarrow> ai_service \<Rightarrow> ai_service" where
  "initializeServices w s =
     (if initialized s then s
      else
        (let groqKey = GROQ_API_KEY w;
             s1 = (if truthy groqKey \<and> groqKey \<noteq> Some ''undefined''
                      \<and> groqKey \<noteq> Some ''placeholder-key''
                      \<and> key_startsWith groqKey ''gsk_''
                   then (if groq_constructor_throws w then s\<lparr>groq := False\<rparr>
                         else s\<lparr>groq := True\<rparr>)
                   else s)
         in s1\<lparr>geminiApiKey := Some (GEMINI_API_KEY w), initialized := True\<rparr>))"

definition failure :: "string \<Rightarrow> gen_result" where
  "failure msg =
     \<lparr> success = False, content = NoContent, error = Some msg, usage = None, fallback = False \<rparr>"

text \<open>\<open>chatCompletion.choices?.[0]\<close>.\<close>

definition first_choice :: "chat_completion \<Rightarrow> choice option" where
  "first_choice cc =
     (case choices cc of None \<Rightarrow> None | Some [] \<Rightarrow> None | Some (c # cs) \<Rightarrow> Some c)"

text \<open>
  \<open>choices?.[0]?.message?.content || choices?.[0]?.text || ''\<close>: a response without
  choices, or whose first choice has no message content, gives the text or the empty
  string, and nothing is thrown.
\<close>

definition groq_content :: "chat_completion \<Rightarrow> string" where
  "groq_content cc =
     (let c = first_choice cc;
          from_message = (case c of None \<Rightarrow> None
                          | Some ch \<Rightarrow> (case choice_message ch of None \<Rightarrow> None
                                        | Some m \<Rightarrow> msg_content m));
          from_text = (case c of None \<Rightarrow> None | Some ch \<Rightarrow> choice_text ch)
      in (case js_or (js_or from_message from_text) (Some []) of None \<Rightarrow> [] | Some t \<Rightarrow> t))"

definition generateWithGroq :: "ai_world \<Rightarrow> ai_service \<Rightarrow> string \<Rightarrow> gen_options \<Rightarrow> gen_result" where
  "generateWithGroq w s prompt opts =
     (let s1 = initializeServices w s in
      if \<not> groq s1 then failure ''Groq SDK not initialized''
      else
        (case groq_create w prompt opts of
           Inl msg \<Rightarrow> failure msg
         | Inr chatCompletion \<Rightarrow>
             \<lparr> success = True, content = Text (groq_content chatCompletion), error = None,
               usage = cc_usage chatCompletion, fallback = False \<rparr>))"

text \<open>
  \<open>response.data.candidates[0].content.parts[0].text\<close>: reading a property of
  \<open>undefined\<close> throws a TypeError, which the surrounding \<open>catch\<close> turns into a failure;
  a part without text gives \<open>undefined\<close> content.
\<close>

definition gemini_text :: "candidate \<Rightarrow> string + string option" where
  \<open>gemini_text c =
     (case cand_content c of
        None \<Rightarrow> Inl ''Cannot read properties of undefined (reading 'parts')''
      | Some cc \<Rightarrow>
          (case parts cc of
             None \<Rightarrow> Inl ''Cannot read properties of undefined (reading '0')''
           | Some [] \<Rightarrow> Inl ''Cannot read properties of undefined (reading 'text')''
           | Some (p # ps) \<Rightarrow> Inr (part_text p)))\<close>

definition axios_error_text :: "axios_error \<Rightarrow> string" where
  "axios_error_text e =
     (case js_or (response_error_message e) (Some (err_message e)) of
        None \<Rightarrow> [] | Some t \<Rightarrow> t)"

definition generateWithGemini :: "ai_world \<Rightarrow> ai_service \<Rightarrow> string \<Rightarrow> gen_options \<Rightarrow> gen_result" where
  "generateWithGemini w s prompt opts =
     (let s1 = initializeServices w s;
          apiKey = (case geminiApiKey s1 of None \<Rightarrow> None | Some k \<Rightarrow> k) in
      if \<not> truthy apiKey \<or> apiKey = Some ''placeholder-key'' \<or> apiKey = Some ''undefined''
           \<or> \<not> key_startsWith apiKey ''AIza''
      then failure ''Gemini API key not configured or invalid''
      else
        (case axios_post w prompt opts of
           Inl e \<Rightarrow> failure (axios_error_text e)
         | Inr data \<Rightarrow>
             (case candidates data of
                None \<Rightarrow> failure ''No candidates returned from Gemini API''
              | Some [] \<Rightarrow> failure ''No candidates returned from Gemini API''
              | Some (c # cs) \<Rightarrow>
                  (case gemini_text c of
                     Inl msg \<Rightarrow> failure msg
                   | Inr t \<Rightarrow>
                       \<lparr> success = True,
                         content = (case t of None \<Rightarrow> NoContent | Some txt \<Rightarrow> Text txt),
                         error = None, usage = usageMetadata data, fallback = False \<rparr>))))"

section \<open>aiService.js: generate and its callers\<close>

text \<open>
  \<open>generate\<close> returns its result together with the provider methods it called, in
  the order of the calls.
\<close>

datatype provider_call = CallGroq | CallGemini

definition generate ::
  "ai_world \<Rightarrow> ai_service \<Rightarrow> string \<Rightarrow> string \<Rightarrow> gen_options \<Rightarrow> provider_call list \<times> gen_result" where
  "generate w s prompt provider opts =
     (let s1 = initializeServices w s;
          try_groq = (provider = ''groq'' \<or> provider = ''auto'');
          try_gemini = (provider = ''gemini'' \<or> provider = ''auto'');
          r1 = generateWithGroq w s1 prompt opts;
          calls1 = (if try_groq then [CallGroq] else [])
      in
      if try_groq \<and> success r1 then (calls1, r1)
      else
        (let r2 = generateWithGemini w s1 prompt opts;
             calls2 = (if try_gemini then calls1 @ [CallGemini] else calls1)
         in
         if try_gemini \<and> success r2 then (calls2, r2)
         else (calls2,
               \<lparr> success = True, content = generateStructuredFallback prompt, error = None,
                 usage = None, fallback = True \<rparr>)))"

definition no_options :: gen_options where
  "no_options = \<lparr> temperature = None, maxTokens = None, topP = None, topK = None \<rparr>"

definition generateQuizQuestions ::
  "ai_world \<Rightarrow> ai_service \<Rightarrow> string \<Rightarrow> string \<Rightarrow> int \<Rightarrow> provider_call list \<times> gen_result" where
  \<open>generateQuizQuestions w s topic difficulty count =
     (let s1 = initializeServices w s;
          prompt = ''Create '' @ num_to_string count @ '' '' @ difficulty
            @ '' multiple choice quiz questions about '' @ topic @ ''.'' @ NL
            @ ''Return ONLY a valid JSON array with this format:'' @ NL
            @ ''['' @ NL
            @ ''  {'' @ NL
            @ ''    "question": "What is ...?",'' @ NL
            @ ''    "options": ["A", "B", "C", "D"],'' @ NL
            @ ''    "correct": 0,'' @ NL
            @ ''    "explanation": "Why correct"'' @ NL
            @ ''  }'' @ NL
            @ '']'';
          (calls, result) = generate w s1 prompt ''gemini'' (no_options\<lparr>maxTokens := Some 2000\<rparr>)
      in
      if success result \<and> \<not> fallback result then (calls, result)
      else (calls,
            \<lparr> success = True,
              content = Quiz (generateFallbackQuiz topic (Some difficulty) (Some count)),
              error = None, usage = None, fallback = False \<rparr>))\<close>

definition explainConcept ::
  "ai_world \<Rightarrow> ai_service \<Rightarrow> string \<Rightarrow> string \<Rightarrow> provider_call list \<times> gen_result" where
  \<open>explainConcept w s concept level =
     (let s1 = initializeServices w s;
          prompt = ''Explain "'' @ concept @ ''" at '' @ level @ '' level:'' @ NL
            @ ''1. Definition'' @ NL
            @ ''2. Key principles'' @ NL
            @ ''3. Real-world examples'' @ NL
            @ ''4. Misconceptions'' @ NL
            @ ''5. Related concepts'';
          (calls, result) = generate w s1 prompt ''auto'' (no_options\<lparr>maxTokens := Some 1500\<rparr>)
      in
      if success result then (calls, result)
      else (calls,
            \<lparr> success = True, content = Text (generateFallbackExplanation concept (Some level)),
              error = None, usage = None, fallback = False \<rparr>))\<close>

section \<open>aiService.js: durations and the study plan\<close>

text \<open>
  \<open>parseInt\<close> on a string: leading white space, an optional sign, an optional \<open>0x\<close>
  prefix, then the longest run of digits; \<open>None\<close> is NaN. \<open>toLowerCase\<close> on the ASCII
  letters.
\<close>

definition is_space :: "char \<Rightarrow> bool" where
  "is_space c = (c \<in> set [CHR '' '', CHR 0x09, CHR 0x0A, CHR 0x0B, CHR 0x0C, CHR 0x0D])"

definition digit_value :: "nat \<Rightarrow> char \<Rightarrow> nat option" where
  "digit_value radix c =
     (let n = (of_char c :: nat);
          v = (if 48 \<le> n \<and> n \<le> 57 then Some (n - 48)
               else if 97 \<le> n \<and> n \<le> 102 then Some (n - 87)
               else if 65 \<le> n \<and> n \<le> 70 then Some (n - 55)
               else None)
      in case v of None \<Rightarrow> None | Some d \<Rightarrow> (if d < radix then Some d else None))"

fun read_digits :: "nat \<Rightarrow> string \<Rightarrow> nat option \<Rightarrow> nat option" where
  "read_digits radix [] acc = acc"
| "read_digits radix (c # cs) acc =
     (case digit_value radix c of
        None \<Rightarrow> acc
      | Some d \<Rightarrow> read_digits radix cs (Some ((case acc of None \<Rightarrow> 0 | Some a \<Rightarrow> a) * radix + d)))"

definition parseInt :: "string \<Rightarrow> int option" where
  "parseInt s =
     (let s1 = dropWhile is_space s;
          neg = (take 1 s1 = ''-'');
          s2 = (if take 1 s1 = ''-'' \<or> take 1 s1 = ''+'' then drop 1 s1 else s1);
          hex = (take 2 s2 = ''0x'' \<or> take 2 s2 = ''0X'');
          v = (if hex then read_digits 16 (drop 2 s2) None else read_digits 10 s2 None)
      in case v of None \<Rightarrow> None | Some n \<Rightarrow> Some (if neg then - int n else int n))"

definition toLowerCase :: "string \<Rightarrow> string" where
  "toLowerCase s =
     map (\<lambda>c. let n = (of_char c :: nat) in if 65 \<le> n \<and> n \<le> 90 then char_of (n + 32) else c) s"

text \<open>\<open>parseInt(x) || k\<close>: NaN and zero are falsy.\<close>

definition parsed_or :: "int option \<Rightarrow> int \<Rightarrow> int" where
  "parsed_or v k = (case v of None \<Rightarrow> k | Some n \<Rightarrow> (if n = 0 then k else n))"

definition parseDuration :: "string option \<Rightarrow> int" where
  "parseDuration duration =
     (if \<not> truthy duration then 30
      else
        (let d = (case duration of None \<Rightarrow> [] | Some t \<Rightarrow> t); str = toLowerCase d in
         if str_includes str ''month'' then parsed_or (parseInt str) 1 * 30
         else if str_includes str ''week'' then parsed_or (parseInt str) 1 * 7
         else if str_includes str ''day'' then parsed_or (parseInt str) 30
         else parsed_or (parseInt d) 30))"

definition study_plan_prompt :: "string \<Rightarrow> string \<Rightarrow> int \<Rightarrow> string \<Rightarrow> string" where
  \<open>study_plan_prompt subject level durationInDays learningStyle =
     ''Create a comprehensive '' @ num_to_string durationInDays @ ''-day study plan for ''
       @ subject @ '' at '' @ level @ '' level.'' @ NL
     @ ''Learning style: '' @ learningStyle @ NL
     @ NL
     @ ''Return ONLY a valid JSON array with this structure:'' @ NL
     @ ''['' @ NL
     @ ''  {'' @ NL
     @ ''    "day": 1,'' @ NL
     @ ''    "title": "Introduction to [Specific Topic]",'' @ NL
     @ ''    "objectives": ["Learn basics", "Understand fundamentals", "Apply knowledge"],'' @ NL
     @ ''    "content": {'' @ NL
     @ ''      "overview": "Detailed overview (200+ words)",'' @ NL
     @ ''      "keyPoints": ["Concept 1", "Concept 2"],'' @ NL
     @ ''      "examples": ["Example 1", "Example 2"],'' @ NL
     @ ''      "exercises": ["Exercise 1", "Exercise 2"]'' @ NL
     @ ''    },'' @ NL
     @ ''    "totalTime": 90'' @ NL
     @ ''  }'' @ NL
     @ '']''\<close>

definition generateDetailedStudyPlan ::
  "ai_world \<Rightarrow> ai_service \<Rightarrow> string \<Rightarrow> string \<Rightarrow> string option \<Rightarrow> string
     \<Rightarrow> provider_call list \<times> gen_result" where
  "generateDetailedStudyPlan w s subject level duration learningStyle =
     (let durationInDays = parseDuration duration;
          prompt = study_plan_prompt subject level durationInDays learningStyle;
          (calls, result) = generate w s prompt ''auto'' (no_options\<lparr>maxTokens := Some 4000\<rparr>)
      in
      if success result \<and> \<not> fallback result then (calls, result)
      else (calls,
            \<lparr> success = True,
              content = Plan (generateFallbackStudyPlan subject (Some level) (Some durationInDays)
                                (Some learningStyle)),
              error = None, usage = None, fallback = False \<rparr>))"

section \<open>Example environments\<close>

text \<open>Both keys are configured, and both provider requests are rejected.\<close>

definition world_down :: ai_world where
  "world_down =
     \<lparr> GROQ_API_KEY = Some ''gsk_test'', GEMINI_API_KEY = Some ''AIzaTest'',
       groq_constructor_throws = False,
       groq_create = (\<lambda>p opts. Inl ''Connection error.''),
       axios_post = (\<lambda>p opts. Inl \<lparr> response_error_message = None, err_message = ''Network Error'' \<rparr>) \<rparr>"

text \<open>Groq answers with a well-formed completion; no Gemini key is configured.\<close>

definition world_groq_only :: ai_world where
  "world_groq_only =
     \<lparr> GROQ_API_KEY = Some ''gsk_test'', GEMINI_API_KEY = None,
       groq_constructor_throws = False,
       groq_create = (\<lambda>p opts. Inr \<lparr> choices = Some [\<lparr> choice_message = Some \<lparr> msg_content = Some ''[]'' \<rparr>,
                                                    choice_text = None \<rparr>],
                                    cc_usage = None \<rparr>),
       axios_post = (\<lambda>p opts. Inl \<lparr> response_error_message = None, err_message = ''Network Error'' \<rparr>) \<rparr>"

text \<open>Groq answers with a completion that has no choices; Gemini would answer well.\<close>

definition world_groq_empty :: ai_world where
  "world_groq_empty =
     \<lparr> GROQ_API_KEY = Some ''gsk_test'', GEMINI_API_KEY = Some ''AIzaTest'',
       groq_constructor_throws = False,
       groq_create = (\<lambda>p opts. Inr \<lparr> choices = None, cc_usage = None \<rparr>),
       axios_post = (\<lambda>p opts. Inr \<lparr> candidates = Some [\<lparr> cand_content = Some \<lparr> parts = Some [\<lparr> part_text = Some ''answer'' \<rparr>] \<rparr> \<rparr>],
                                   usageMetadata = None \<rparr>) \<rparr>"

text \<open>No key is configured at all.\<close>

definition world_no_keys :: ai_world where
  "world_no_keys =
     \<lparr> GROQ_API_KEY = None, GEMINI_API_KEY = None, groq_constructor_throws = False,
       groq_create = (\<lambda>p opts. Inl ''unreachable''),
       axios_post = (\<lambda>p opts. Inl \<lparr> response_error_message = Some ''API key not valid'',
                                   err_message = ''Request failed with status code 400'' \<rparr>) \<rparr>"

section \<open>Identifiers, thrown errors and responses\<close>

text \<open>
  An ObjectId is its hexadecimal string. A value used as an identifier is a string (a
  route parameter) or an ObjectId (\<open>auth.js\<close> sets \<open>req.userId = user._id\<close>, the
  ObjectId of the authenticated user).
\<close>

type_synonym oid = string

datatype js_id = IdStr string | IdObj oid

definition id_toString :: "js_id \<Rightarrow> string" where
  "id_toString v = (case v of IdStr t \<Rightarrow> t | IdObj h \<Rightarrow> h)"

text \<open>\<open>s === v\<close> for a string \<open>s\<close>: a string is never strictly equal to an object.\<close>

definition str_strict_eq :: "string \<Rightarrow> js_id \<Rightarrow> bool" where
  "str_strict_eq s v = (case v of IdStr t \<Rightarrow> s = t | IdObj h \<Rightarrow> False)"

definition authenticated_userId :: "oid \<Rightarrow> js_id" where
  "authenticated_userId user_id = IdObj user_id"

datatype js_value = Undefined | Null | Str string | Num int | Bool bool

definition falsy :: "js_value \<Rightarrow> bool" where
  "falsy v =
     (case v of Undefined \<Rightarrow> True | Null \<Rightarrow> True | Str t \<Rightarrow> t = [] | Num n \<Rightarrow> n = 0
      | Bool b \<Rightarrow> \<not> b)"

datatype js_error = TypeError string | Error string

record 'a response =
  status :: nat
  r_success :: bool
  r_message :: "string option"
  r_payload :: "'a option"

text \<open>\<open>res.status(code).json({ success: false, message })\<close>.\<close>

definition refuse :: "nat \<Rightarrow> string \<Rightarrow> 'a response" where
  "refuse code msg =
     \<lparr> status = code, r_success = False, r_message = Some msg, r_payload = None \<rparr>"

text \<open>
  The \<open>try { ... } catch (error) { logger.error(...); res.status(500).json(...) }\<close> that
  wraps the whole body of every handler.
\<close>

definition at_boundary :: "js_error + 'a response \<Rightarrow> 'a response" where
  "at_boundary r = (case r of Inl e \<Rightarrow> refuse 500 ''Internal server error'' | Inr resp \<Rightarrow> resp)"

text \<open>Sequencing of awaited calls: a rejection skips the rest of the \<open>try\<close> block.\<close>

definition and_then :: "js_error + 'a \<Rightarrow> ('a \<Rightarrow> js_error + 'b) \<Rightarrow> js_error + 'b" where
  "and_then r f = (case r of Inl e \<Rightarrow> Inl e | Inr x \<Rightarrow> f x)"

section \<open>StudyGroup.js: the document and its methods\<close>

record group_member =
  member_user :: oid
  member_role :: string
  member_joinedAt :: "nat option"
  member_isActive :: bool

record attendee =
  attendee_user :: oid
  attendee_joinedAt :: "nat option"
  attendee_leftAt :: "nat option"

datatype session_status = Scheduled | Live | Completed | Cancelled

record session =
  session_id :: oid
  session_title :: "string option"
  scheduledAt :: "nat option"
  session_status :: session_status
  liveStartedAt :: "nat option"
  endedAt :: "nat option"
  attendees :: "attendee list"
  meetingLink :: string
  joinCode :: string

record chat_entry =
  chat_user :: oid
  chat_content :: string
  chat_type :: string
  chat_createdAt :: nat

record study_group =
  group_id :: oid
  group_name :: string
  group_subject :: string
  group_tags :: "string list"
  creator :: oid
  members :: "group_member list"
  maxMembers :: int
  isPrivate :: bool
  sessions :: "session list"
  chat_messages :: "chat_entry list"

text \<open>
  What the document store does with a group: \<open>save\<close> validates and writes the document
  and may reject; the other calls are the queries of the controller.
\<close>

record sg_world =
  sg_save :: "study_group \<Rightarrow> js_error + study_group"
  sg_findById :: "string \<Rightarrow> js_error + study_group option"
  sg_populate :: "study_group \<Rightarrow> string \<Rightarrow> js_error + study_group"

text \<open>\<open>xs.slice(-k)\<close>: the last \<open>k\<close> elements, all of them when there are fewer.\<close>

definition slice_last :: "nat \<Rightarrow> 'a list \<Rightarrow> 'a list" where
  "slice_last k xs = drop (length xs - k) xs"

text \<open>
  \<open>addChatMessage\<close> changes the document in memory and returns the promise of
  \<open>this.save()\<close>: the model returns the changed document with the outcome of the save.
\<close>

definition addChatMessage ::
  "sg_world \<Rightarrow> nat \<Rightarrow> study_group \<Rightarrow> js_id \<Rightarrow> string \<Rightarrow> string
     \<Rightarrow> study_group \<times> (js_error + study_group)" where
  "addChatMessage w now g userId msg_text msg_type =
     (let message = \<lparr> chat_user = id_toString userId, chat_content = msg_text,
                       chat_type = msg_type, chat_createdAt = now \<rparr>;
          pushed = chat_messages g @ [message];
          kept = (if length pushed > 1000 then slice_last 1000 pushed else pushed);
          g1 = g\<lparr>chat_messages := kept\<rparr>
      in (g1, sg_save w g1))"

text \<open>\<open>this.sessions.id(sessionId)\<close>: the first session with this \<open>_id\<close>.\<close>

definition session_by_id :: "study_group \<Rightarrow> js_id \<Rightarrow> session option" where
  "session_by_id g sessionId = find (\<lambda>s. session_id s = id_toString sessionId) (sessions g)"

fun replace_first :: "('a \<Rightarrow> bool) \<Rightarrow> 'a \<Rightarrow> 'a list \<Rightarrow> 'a list" where
  "replace_first P y [] = []"
| "replace_first P y (x # xs) = (if P x then y # xs else x # replace_first P y xs)"

text \<open>
  \<open>joinSession\<close>. The two clock readings are \<open>joinedNow\<close> (the attendee's \<open>joinedAt\<close>)
  and \<open>now\<close>. A Date is truthy, so \<open>session.liveStartedAt || now\<close> keeps a start that is
  already set.
\<close>

definition joinSession ::
  "sg_world \<Rightarrow> nat \<Rightarrow> nat \<Rightarrow> study_group \<Rightarrow> js_id \<Rightarrow> js_id
     \<Rightarrow> js_error + study_group \<times> (js_error + study_group)" where
  "joinSession w joinedNow now g sessionId userId =
     (case session_by_id g sessionId of
        None \<Rightarrow> Inl (Error ''Session not found'')
      | Some session \<Rightarrow>
          (let existingAttendee =
                 find (\<lambda>a. attendee_user a = id_toString userId) (attendees session);
               s1 = (if existingAttendee = None
                     then session\<lparr>attendees := attendees session @
                            [\<lparr> attendee_user = id_toString userId,
                               attendee_joinedAt = Some joinedNow, attendee_leftAt = None \<rparr>]\<rparr>
                     else session);
               due = (case scheduledAt s1 of None \<Rightarrow> False | Some t \<Rightarrow> t \<le> now);
               s2 = (if due \<and> session_status s1 = Scheduled
                     then s1\<lparr>session_status := Live,
                            liveStartedAt := (case liveStartedAt s1 of None \<Rightarrow> Some now
                                              | Some t \<Rightarrow> Some t)\<rparr>
                     else s1);
               g1 = g\<lparr>sessions :=
                      replace_first (\<lambda>s. session_id s = id_toString sessionId) s2 (sessions g)\<rparr>
           in Inr (g1, sg_save w g1)))"

text \<open>The attendee entries of a user in a session of a group.\<close>

definition entries_of :: "study_group \<Rightarrow> js_id \<Rightarrow> js_id \<Rightarrow> attendee list" where
  "entries_of g sessionId userId =
     (case session_by_id g sessionId of
        None \<Rightarrow> []
      | Some s \<Rightarrow> filter (\<lambda>a. attendee_user a = id_toString userId) (attendees s))"

definition attendees_of :: "study_group \<Rightarrow> js_id \<Rightarrow> attendee list" where
  "attendees_of g sessionId =
     (case session_by_id g sessionId of None \<Rightarrow> [] | Some s \<Rightarrow> attendees s)"

section \<open>studyGroupController.js\<close>

record create_body =
  b_name :: js_value
  b_description :: js_value
  b_subject :: js_value
  b_privacy :: js_value
  b_maxMembers :: js_value
  b_tags :: "string list option"

record 'b request =
  req_body :: "'b option"
  req_id :: string
  req_userId :: js_id

text \<open>The object handed to \<open>new StudyGroup(...)\<close> by \<open>createStudyGroup\<close>.\<close>

record new_group =
  ng_name :: js_value
  ng_description :: js_value
  ng_subject :: js_value
  ng_tags :: "string list"
  ng_creator :: js_id
  ng_members :: "(js_id \<times> string) list"
  ng_maxMembers :: js_value
  ng_isPrivate :: bool

text \<open>
  \<open>maxMembers || 50\<close> and \<open>privacy === 'private' || false\<close>.
\<close>

definition or_default :: "js_value \<Rightarrow> js_value \<Rightarrow> js_value" where
  "or_default v d = (if falsy v then d else v)"

text \<open>
  \<open>createStudyGroup\<close>. \<open>create\<close> stands for \<open>new StudyGroup(...)\<close> followed by
  \<open>save()\<close>: casting, defaults, validation and the write, with their rejection.
\<close>

definition createStudyGroup ::
  "sg_world \<Rightarrow> (new_group \<Rightarrow> js_error + study_group) \<Rightarrow> create_body request
     \<Rightarrow> study_group response" where
  "createStudyGroup w create req =
     at_boundary
       (case req_body req of
          None \<Rightarrow> Inl (TypeError ''Cannot destructure property of req.body'')
        | Some body \<Rightarrow>
            if falsy (b_name body) \<or> falsy (b_subject body)
            then Inr (refuse 400 ''Name and subject are required'')
            else
              and_then
                (create \<lparr> ng_name = b_name body, ng_description = b_description body,
                          ng_subject = b_subject body,
                          ng_tags = (case b_tags body of None \<Rightarrow> [] | Some ts \<Rightarrow> ts),
                          ng_creator = req_userId req,
                          ng_members = [(req_userId req, ''admin'')],
                          ng_maxMembers = or_default (b_maxMembers body) (Num 50),
                          ng_isPrivate = (b_privacy body = Str ''private'') \<rparr>)
                (\<lambda>studyGroup.
                   and_then (sg_populate w studyGroup ''creator'')
                     (\<lambda>g1. and_then (sg_populate w g1 ''members.user'')
                        (\<lambda>g2. Inr \<lparr> status = 201, r_success = True, r_message = None,
                                     r_payload = Some g2 \<rparr>))))"

text \<open>
  \<open>joinStudyGroup\<close>. The membership test is \<open>member.user.toString() === userId\<close>, with
  \<open>userId = req.userId\<close> as the request carries it. Mongoose fills the defaults of the
  pushed member (\<open>joinedAt\<close> from the clock, \<open>isActive\<close> true).
\<close>

definition joinStudyGroup ::
  "sg_world \<Rightarrow> nat \<Rightarrow> unit request \<Rightarrow> study_group response" where
  "joinStudyGroup w now req =
     at_boundary
       (let userId = req_userId req in
        and_then (sg_findById w (req_id req))
          (\<lambda>found.
             case found of
               None \<Rightarrow> Inr (refuse 404 ''Study group not found'')
             | Some studyGroup \<Rightarrow>
                 if list_ex (\<lambda>m. str_strict_eq (member_user m) userId) (members studyGroup)
                 then Inr (refuse 400 ''Already a member of this group'')
                 else if int (length (members studyGroup)) \<ge> maxMembers studyGroup
                 then Inr (refuse 400 ''Study group is full'')
                 else if isPrivate studyGroup
                 then Inr (refuse 403 ''This is a private group. You need an invitation to join.'')
                 else
                   and_then
                     (sg_save w (studyGroup\<lparr>members := members studyGroup @
                        [\<lparr> member_user = id_toString userId, member_role = ''member'',
                           member_joinedAt = Some now, member_isActive = True \<rparr>]\<rparr>))
                     (\<lambda>g1. and_then (sg_populate w g1 ''creator'')
                        (\<lambda>g2. and_then (sg_populate w g2 ''members.user'')
                           (\<lambda>g3. Inr \<lparr> status = 200, r_success = True,
                                        r_message = Some ''Successfully joined the study group'',
                                        r_payload = Some g3 \<rparr>)))))"

section \<open>aiController.js: chat\<close>

record conv_message =
  cm_role :: string
  cm_content :: js_value
  cm_timestamp :: nat

record conversation =
  conv_id :: oid
  conv_userId :: js_id
  conv_agentId :: js_value
  conv_messages :: "conv_message list"
  conv_lastActivity :: "nat option"

record chat_body =
  cb_message :: js_value
  cb_conversationId :: js_value
  cb_agentId :: js_value

record chat_context =
  conversationHistory :: "conv_message list"
  ctx_userId :: js_id

record chat_world =
  conv_findOne :: "js_value \<Rightarrow> js_id \<Rightarrow> js_error + conversation option"
  conv_save :: "conversation \<Rightarrow> js_error + conversation"
  conv_fresh_id :: oid

text \<open>
  \<open>aiService.continueConversation\<close>: the class \<open>AIService\<close> declares the methods
  \<open>initializeServices\<close>, \<open>generateWithGroq\<close>, \<open>generateWithGemini\<close>, \<open>generate\<close>,
  \<open>generateStructuredFallback\<close>, \<open>generateDetailedStudyPlan\<close>, \<open>generateQuizQuestions\<close>,
  \<open>explainConcept\<close>, \<open>generateDailyContent\<close>, \<open>parseDuration\<close>,
  \<open>generateFallbackStudyPlan\<close>, \<open>generateFallbackQuiz\<close> and
  \<open>generateFallbackExplanation\<close>, and none named \<open>continueConversation\<close>. Reading the
  property on the exported object gives \<open>undefined\<close>.
\<close>

definition continueConversation ::
  "(conv_message list \<Rightarrow> chat_context \<Rightarrow> js_error + gen_result) option" where
  "continueConversation = None"

text \<open>Calling a property: \<open>undefined\<close> is not a function.\<close>

definition call_continueConversation ::
  "conv_message list \<Rightarrow> chat_context \<Rightarrow> js_error + gen_result" where
  "call_continueConversation msgs ctx =
     (case continueConversation of
        None \<Rightarrow> Inl (TypeError ''aiService.continueConversation is not a function'')
      | Some f \<Rightarrow> f msgs ctx)"

text \<open>
  \<open>chat\<close>. The success response carries the AI content as its \<open>message\<close> and the
  conversation id; they are the payload here.
\<close>

definition chat :: "chat_world \<Rightarrow> nat \<Rightarrow> chat_body request \<Rightarrow> (content \<times> oid) response" where
  "chat w now req =
     at_boundary
       (case req_body req of
          None \<Rightarrow> Inl (TypeError ''Cannot destructure property of req.body'')
        | Some body \<Rightarrow>
            and_then
              (if falsy (cb_conversationId body) then Inr None
               else conv_findOne w (cb_conversationId body) (req_userId req))
              (\<lambda>found.
                 let conversation0 =
                       (case found of
                          Some c \<Rightarrow> c
                        | None \<Rightarrow> \<lparr> conv_id = conv_fresh_id w, conv_userId = req_userId req,
                                    conv_agentId = or_default (cb_agentId body) Null,
                                    conv_messages = [], conv_lastActivity = None \<rparr>);
                     conversation1 = conversation0\<lparr>conv_messages := conv_messages conversation0 @
                        [\<lparr> cm_role = ''user'', cm_content = cb_message body, cm_timestamp = now \<rparr>]\<rparr>;
                     context = \<lparr> conversationHistory = slice_last 10 (conv_messages conversation1),
                                 ctx_userId = req_userId req \<rparr>
                 in
                 and_then (call_continueConversation (conv_messages conversation1) context)
                   (\<lambda>aiResponse.
                      if \<not> success aiResponse then Inr (refuse 500 ''Failed to get AI response'')
                      else
                        (let conversation2 = conversation1\<lparr>conv_messages := conv_messages conversation1 @
                               [\<lparr> cm_role = ''assistant'',
                                  cm_content = (case content aiResponse of Text t \<Rightarrow> Str t
                                                | _ \<Rightarrow> Undefined),
                                  cm_timestamp = now \<rparr>],
                               conv_lastActivity := Some now\<rparr>
                         in and_then (conv_save w conversation2)
                              (\<lambda>saved. Inr \<lparr> status = 200, r_success = True, r_message = None,
                                             r_payload = Some (content aiResponse, conv_id conversation2) \<rparr>)))))"

section \<open>User.js: the schema and the store\<close>

record user =
  u_username :: string
  u_firstName :: string
  u_lastName :: string
  u_email :: string
  u_password :: string

datatype store_error = ValidationError "string list" | HookError | DuplicateKey "string list"

text \<open>
  The parts of saving a user that are not written in the repository's own code: whether
  the email matches the schema's pattern, and what \<open>bcrypt.hash\<close> returns (\<open>None\<close> when it
  throws).
\<close>

record store_world =
  email_matches :: "string \<Rightarrow> bool"
  bcrypt_hash :: "string \<Rightarrow> string option"

definition js_trim :: "string \<Rightarrow> string" where
  "js_trim s = rev (dropWhile is_space (rev (dropWhile is_space s)))"

text \<open>The schema's setters: \<open>trim\<close> on the three names, \<open>lowercase\<close> on the email.\<close>

definition apply_setters :: "user \<Rightarrow> user" where
  "apply_setters u =
     u\<lparr>u_username := js_trim (u_username u), u_firstName := js_trim (u_firstName u),
       u_lastName := js_trim (u_lastName u), u_email := toLowerCase (u_email u)\<rparr>"

text \<open>The schema's validators, each with its message.\<close>

definition validation_errors :: "store_world \<Rightarrow> user \<Rightarrow> string list" where
  "validation_errors w u =
     (if u_username u = [] then [''Username is required'']
      else if length (u_username u) > 30 then [''Username cannot exceed 30 characters''] else [])
     @ (if u_firstName u = [] then [''First name is required'']
        else if length (u_firstName u) > 50 then [''First name cannot exceed 50 characters''] else [])
     @ (if u_lastName u = [] then [''Last name is required'']
        else if length (u_lastName u) > 50 then [''Last name cannot exceed 50 characters''] else [])
     @ (if u_email u = [] then [''Email is required'']
        else if \<not> email_matches w (u_email u) then [''Please enter a valid email''] else [])
     @ (if u_password u = [] then [''Password is required'']
        else if length (u_password u) < 6 then [''Password must be at least 6 characters''] else [])"

text \<open>The fields declared \<open>unique: true\<close> whose value is already stored.\<close>

definition duplicate_keys :: "user list \<Rightarrow> user \<Rightarrow> string list" where
  "duplicate_keys stored u =
     (if list_ex (\<lambda>v. u_username v = u_username u) stored then [''username''] else [])
     @ (if list_ex (\<lambda>v. u_email v = u_email u) stored then [''email''] else [])"

text \<open>
  Modelled from the spec: saving a new user document in the document store, which is not
  part of the repository. The repository declares the schema (setters, validators, the
  \<open>unique\<close> fields) and the pre-save hook that hashes the password; that the store
  "enforces uniqueness (username/email)", so that "creating a user with a duplicate email
  fails", is the spec's. The setters run first, then the validators, then the hook, then
  the insert under the unique indexes; a rejected save leaves the stored users as they
  were.
\<close>

definition user_save :: "store_world \<Rightarrow> user list \<Rightarrow> user \<Rightarrow> (store_error + user) \<times> user list" where
  "user_save w stored u0 =
     (let u = apply_setters u0; errs = validation_errors w u in
      if errs \<noteq> [] then (Inl (ValidationError errs), stored)
      else
        (case bcrypt_hash w (u_password u) of
           None \<Rightarrow> (Inl HookError, stored)
         | Some h \<Rightarrow>
             (let u1 = u\<lparr>u_password := h\<rparr>; dup = duplicate_keys stored u1 in
              if dup \<noteq> [] then (Inl (DuplicateKey dup), stored)
              else (Inr u1, stored @ [u1]))))"

text \<open>The store states: those that saves produce from the empty collection.\<close>

inductive store_state :: "store_world \<Rightarrow> user list \<Rightarrow> bool" for w :: store_world where
  empty_store: "store_state w []"
| after_save: "store_state w stored \<Longrightarrow> store_state w (snd (user_save w stored u))"

section \<open>Example inputs for the controllers, the model and the store\<close>

definition alice :: group_member where
  "alice = \<lparr> member_user = ''64a000000000000000000001'', member_role = ''admin'',
             member_joinedAt = Some 1000, member_isActive = True \<rparr>"

definition group0 :: study_group where
  "group0 =
     \<lparr> group_id = ''64b000000000000000000001'', group_name = ''Algebra'',
       group_subject = ''Mathematics'', group_tags = [],
       creator = ''64a000000000000000000001'', members = [alice], maxMembers = 50,
       isPrivate = False, sessions = [], chat_messages = [] \<rparr>"

text \<open>A store that holds \<open>group0\<close> and accepts every write.\<close>

definition sg_world0 :: sg_world where
  "sg_world0 =
     \<lparr> sg_save = (\<lambda>g. Inr g),
       sg_findById = (\<lambda>i. if i = ''64b000000000000000000001'' then Inr (Some group0) else Inr None),
       sg_populate = (\<lambda>g path. Inr g) \<rparr>"

definition join_request :: "unit request" where
  "join_request =
     \<lparr> req_body = None, req_id = ''64b000000000000000000001'',
       req_userId = authenticated_userId ''64a000000000000000000001'' \<rparr>"

definition chat_world0 :: chat_world where
  "chat_world0 =
     \<lparr> conv_findOne = (\<lambda>i u. Inr None), conv_save = (\<lambda>c. Inr c),
       conv_fresh_id = ''64c000000000000000000001'' \<rparr>"

definition chat_request :: "chat_body request" where
  "chat_request =
     \<lparr> req_body = Some \<lparr> cb_message = Str ''What is a closure?'', cb_conversationId = Undefined,
                          cb_agentId = Undefined \<rparr>,
       req_id = [], req_userId = authenticated_userId ''64a000000000000000000001'' \<rparr>"

definition bob_entry :: attendee where
  "bob_entry = \<lparr> attendee_user = ''64a000000000000000000002'', attendee_joinedAt = Some 2000,
                 attendee_leftAt = None \<rparr>"

definition session0 :: session where
  "session0 =
     \<lparr> session_id = ''64d000000000000000000001'', session_title = Some ''Kickoff'',
       scheduledAt = Some 5000, session_status = Scheduled, liveStartedAt = None, endedAt = None,
       attendees = [], meetingLink = ''https://meet.studyai.com/room/abc'', joinCode = ''ABC234'' \<rparr>"

text \<open>A group whose session already lists the same user twice.\<close>

definition group_twice :: study_group where
  "group_twice = group0\<lparr>sessions := [session0\<lparr>attendees := [bob_entry, bob_entry]\<rparr>]\<rparr>"

definition group_session :: study_group where
  "group_session = group0\<lparr>sessions := [session0]\<rparr>"

definition store_world0 :: store_world where
  "store_world0 = \<lparr> email_matches = (\<lambda>e. CHR ''@'' \<in> set e), bcrypt_hash = (\<lambda>p. Some (''$2a$12$'' @ p)) \<rparr>"

definition carol :: user where
  "carol = \<lparr> u_username = ''carol'', u_firstName = ''Carol'', u_lastName = ''Diaz'',
             u_email = ''Carol@Example.com'', u_password = ''secret1'' \<rparr>"

definition carol_again :: user where
  "carol_again = \<lparr> u_username = ''carol2'', u_firstName = ''Caroline'', u_lastName = ''Diaz'',
                   u_email = ''carol@example.com'', u_password = ''secret2'' \<rparr>"

text \<open>The stored form of \<open>carol\<close>.\<close>

definition carol_stored :: user where
  "carol_stored = \<lparr> u_username = ''carol'', u_firstName = ''Carol'', u_lastName = ''Diaz'',
                    u_email = ''carol@example.com'', u_password = ''$2a$12$secret1'' \<rparr>"

definition session_key :: js_id where
  "session_key = IdStr ''64d000000000000000000001''"

definition bob :: js_id where
  "bob = authenticated_userId ''64a000000000000000000002''"

text \<open>\<open>group_twice\<close> and \<open>group_session\<close> after \<open>bob\<close> has joined at times 6000 and 6001.\<close>

definition group_twice_live :: study_group where
  "group_twice_live =
     group0\<lparr>sessions := [session0\<lparr>attendees := [bob_entry, bob_entry], session_status := Live,
                                   liveStartedAt := Some 6001\<rparr>]\<rparr>"

definition group_joined :: study_group where
  "group_joined =
     group0\<lparr>sessions := [session0\<lparr>attendees := [\<lparr> attendee_user = ''64a000000000000000000002'',
                                                   attendee_joinedAt = Some 6000,
                                                   attendee_leftAt = None \<rparr>],
                                   session_status := Live, liveStartedAt := Some 6001\<rparr>]\<rparr>"

definition hello_entry :: chat_entry where
  "hello_entry = \<lparr> chat_user = ''64a000000000000000000001'', chat_content = ''hello'',
                   chat_type = ''text'', chat_createdAt = 1 \<rparr>"

definition group_full_chat :: study_group where
  "group_full_chat = group0\<lparr>chat_messages := replicate 1000 hello_entry\<rparr>"

section \<open>Properties of the AI service\<close>

subsection \<open>Initialisation happens once\<close>

lemma initializeServices_idem:
  "initializeServices w (initializeServices w s) = initializeServices w s"
  by (simp add: initializeServices_def Let_def)

lemma generateWithGroq_init:
  "generateWithGroq w (initializeServices w s) prompt opts = generateWithGroq w s prompt opts"
  by (simp add: generateWithGroq_def initializeServices_idem)

lemma generateWithGemini_init:
  "generateWithGemini w (initializeServices w s) prompt opts = generateWithGemini w s prompt opts"
  by (simp add: generateWithGemini_def initializeServices_idem)

text \<open>
  \<open>generate\<close> in terms of what the two provider methods return on the caller's service
  object.
\<close>

lemma generate_cases:
  "generate w s prompt provider opts =
     (let try_groq = (provider = ''groq'' \<or> provider = ''auto'');
          try_gemini = (provider = ''gemini'' \<or> provider = ''auto'');
          r1 = generateWithGroq w s prompt opts;
          r2 = generateWithGemini w s prompt opts;
          calls1 = (if try_groq then [CallGroq] else [])
      in
      if try_groq \<and> success r1 then (calls1, r1)
      else if try_gemini \<and> success r2 then (calls1 @ [CallGemini], r2)
      else (calls1 @ (if try_gemini then [CallGemini] else []),
            \<lparr> success = True, content = generateStructuredFallback prompt, error = None,
              usage = None, fallback = True \<rparr>))"
  by (simp add: generate_def Let_def generateWithGroq_init generateWithGemini_init)

lemma groq_result_not_fallback: "\<not> fallback (generateWithGroq w s prompt opts)"
  by (auto simp: generateWithGroq_def failure_def Let_def split: sum.splits)

lemma gemini_result_not_fallback: "\<not> fallback (generateWithGemini w s prompt opts)"
  by (auto simp: generateWithGemini_def failure_def Let_def
      split: sum.splits option.splits list.splits)

subsection \<open>The example environments, evaluated\<close>

lemma groq_down:
  "generateWithGroq world_down AIService_new p opts = failure ''Connection error.''"
  by (simp add: generateWithGroq_def initializeServices_def world_down_def AIService_new_def
      Let_def truthy_def startsWith_def key_startsWith_def)

lemma gemini_down:
  "generateWithGemini world_down AIService_new p opts = failure ''Network Error''"
  by (simp add: generateWithGemini_def initializeServices_def world_down_def AIService_new_def
      Let_def truthy_def startsWith_def key_startsWith_def axios_error_text_def js_or_def)

subsection \<open>generate never returns an error result\<close>

text \<open>
  C1. Whatever the prompt, the provider argument and the options, and however the Groq
  and Gemini calls end, \<open>generate\<close> returns a result with \<open>success = true\<close>. When both
  provider methods fail, the result is the synthesized fallback content, flagged
  \<open>fallback = true\<close>, with no error.
\<close>

theorem generate_never_fails:
  "success (snd (generate w s prompt provider opts)) \<and>
   (\<not> success (generateWithGroq w s prompt opts) \<and> \<not> success (generateWithGemini w s prompt opts)
      \<longrightarrow> snd (generate w s prompt provider opts) =
            \<lparr> success = True, content = generateStructuredFallback prompt, error = None,
              usage = None, fallback = True \<rparr>)"
  by (simp add: generate_cases Let_def)

theorem generate_never_fails_witness:
  "\<not> success (generateWithGroq world_down AIService_new ''hello'' no_options)
   \<and> \<not> success (generateWithGemini world_down AIService_new ''hello'' no_options)
   \<and> snd (generate world_down AIService_new ''hello'' ''auto'' no_options) =
       \<lparr> success = True, content = generateStructuredFallback ''hello'', error = None,
         usage = None, fallback = True \<rparr>"
  using generate_never_fails [of world_down AIService_new "''hello''" "''auto''" no_options]
  by (simp add: groq_down gemini_down failure_def)

lemma groq_empty:
  "generateWithGroq world_groq_empty AIService_new p opts =
     \<lparr> success = True, content = Text [], error = None, usage = None, fallback = False \<rparr>"
  by (simp add: generateWithGroq_def initializeServices_def world_groq_empty_def AIService_new_def
      Let_def truthy_def startsWith_def key_startsWith_def groq_content_def first_choice_def js_or_def)

lemma groq_ready_empty: "groq (initializeServices world_groq_empty AIService_new)"
  by (simp add: initializeServices_def world_groq_empty_def AIService_new_def
      Let_def truthy_def startsWith_def key_startsWith_def)

lemma groq_no_keys:
  "generateWithGroq world_no_keys AIService_new p opts = failure ''Groq SDK not initialized''"
  by (simp add: generateWithGroq_def initializeServices_def world_no_keys_def AIService_new_def
      Let_def truthy_def key_startsWith_def)

lemma gemini_no_keys:
  "generateWithGemini world_no_keys AIService_new p opts
     = failure ''Gemini API key not configured or invalid''"
  by (simp add: generateWithGemini_def initializeServices_def world_no_keys_def AIService_new_def
      Let_def truthy_def key_startsWith_def)

subsection \<open>Which providers are called, and in which order\<close>

text \<open>
  C2 as stated fails: called with provider \<open>'groq'\<close> while the Groq request is rejected,
  \<open>generate\<close> returns the template although Gemini was never called; and
  \<open>generateQuizQuestions\<close> calls Gemini alone, also where Groq would have answered.
\<close>

theorem provider_order_counterexample:
  "fst (generate world_down AIService_new ''hello'' ''groq'' no_options) = [CallGroq]
   \<and> fallback (snd (generate world_down AIService_new ''hello'' ''groq'' no_options))
   \<and> content (snd (generate world_down AIService_new ''hello'' ''groq'' no_options))
       = generateStructuredFallback ''hello''
   \<and> fst (generateQuizQuestions world_groq_only AIService_new ''JavaScript'' ''beginner'' 3)
       = [CallGemini]"
  by (simp add: generate_cases generateQuizQuestions_def split_def Let_def groq_down failure_def)

text \<open>
  C2, amended. The provider argument selects who is tried. With \<open>'auto'\<close> the order is
  Groq, then Gemini when Groq failed; with \<open>'groq'\<close> only Groq is called and with
  \<open>'gemini'\<close> only Gemini (so \<open>generateQuizQuestions\<close>, which passes \<open>'gemini'\<close>, never
  calls Groq); with any other value no provider is called. The template is returned
  exactly when every provider that was called has failed.
\<close>

theorem generate_provider_order:
  "fst (generate w s prompt provider opts) =
     (if provider = ''auto''
      then (if success (generateWithGroq w s prompt opts) then [CallGroq] else [CallGroq, CallGemini])
      else if provider = ''groq'' then [CallGroq]
      else if provider = ''gemini'' then [CallGemini]
      else [])
   \<and> (fallback (snd (generate w s prompt provider opts)) \<longleftrightarrow>
        (CallGroq \<in> set (fst (generate w s prompt provider opts))
           \<longrightarrow> \<not> success (generateWithGroq w s prompt opts))
        \<and> (CallGemini \<in> set (fst (generate w s prompt provider opts))
           \<longrightarrow> \<not> success (generateWithGemini w s prompt opts)))
   \<and> fst (generateQuizQuestions w s topic difficulty count) = [CallGemini]"
proof -
  have a: "fst (generate w s prompt provider opts) =
     (if provider = ''auto''
      then (if success (generateWithGroq w s prompt opts) then [CallGroq] else [CallGroq, CallGemini])
      else if provider = ''groq'' then [CallGroq]
      else if provider = ''gemini'' then [CallGemini]
      else [])"
    by (simp add: generate_cases Let_def)
  have b: "fallback (snd (generate w s prompt provider opts)) \<longleftrightarrow>
        (CallGroq \<in> set (fst (generate w s prompt provider opts))
           \<longrightarrow> \<not> success (generateWithGroq w s prompt opts))
        \<and> (CallGemini \<in> set (fst (generate w s prompt provider opts))
           \<longrightarrow> \<not> success (generateWithGemini w s prompt opts))"
    by (simp add: generate_cases Let_def groq_result_not_fallback gemini_result_not_fallback)
  have c: "fst (generateQuizQuestions w s topic difficulty count) = [CallGemini]"
    by (simp add: generateQuizQuestions_def Let_def split_def generate_cases)
  from a b c show ?thesis by (intro conjI)
qed

theorem generate_provider_order_witness:
  "fst (generate world_down AIService_new ''hello'' ''auto'' no_options) = [CallGroq, CallGemini]
   \<and> fallback (snd (generate world_down AIService_new ''hello'' ''auto'' no_options))
   \<and> \<not> success (generateWithGroq world_down AIService_new ''hello'' no_options)
   \<and> \<not> success (generateWithGemini world_down AIService_new ''hello'' no_options)
   \<and> fst (generateQuizQuestions world_groq_only AIService_new ''JavaScript'' ''beginner'' 3)
       = [CallGemini]"
  using generate_provider_order [of world_down AIService_new "''hello''" "''auto''" no_options
      "''JavaScript''" "''beginner''" 3]
    generate_provider_order [of world_groq_only AIService_new "''hello''" "''auto''" no_options
      "''JavaScript''" "''beginner''" 3]
  by (simp add: groq_down gemini_down failure_def)

subsection \<open>A Groq response of invalid shape\<close>

text \<open>
  C4 as stated fails: a Groq completion without choices is returned as a success with
  empty content, and Gemini, which would have answered, is not called.
\<close>

theorem groq_invalid_shape_counterexample:
  "generate world_groq_empty AIService_new ''hello'' ''auto'' no_options =
     ([CallGroq],
      \<lparr> success = True, content = Text [], error = None, usage = None, fallback = False \<rparr>)"
  by (simp add: generate_cases Let_def groq_empty)

text \<open>
  C4, amended. Whatever its shape, a completion that the Groq SDK returns is a success:
  \<open>generate\<close> returns it and calls nothing else, and its content is the empty string
  when there is no choice, and the first choice's text (or the empty string) when that
  choice has no message content. The Groq call is a failure only when the client is
  missing or the request throws; then, under provider \<open>'auto'\<close>, Gemini is called before
  any template is synthesized.
\<close>

theorem groq_shape_and_failure:
  "(groq (initializeServices w s) \<and> groq_create w prompt opts = Inr cc \<longrightarrow>
      generate w s prompt ''auto'' opts =
        ([CallGroq],
         \<lparr> success = True, content = Text (groq_content cc), error = None,
           usage = cc_usage cc, fallback = False \<rparr>))
   \<and> (choices cc = None \<or> choices cc = Some [] \<longrightarrow> groq_content cc = [])
   \<and> (choices cc = Some (c # cs) \<and>
        (choice_message c = None \<or> choice_message c = Some \<lparr> msg_content = None \<rparr>) \<longrightarrow>
          groq_content cc = (case choice_text c of None \<Rightarrow> [] | Some t \<Rightarrow> t))
   \<and> (\<not> groq (initializeServices w s) \<or> groq_create w prompt opts = Inl msg \<longrightarrow>
        \<not> success (generateWithGroq w s prompt opts)
        \<and> fst (generate w s prompt ''auto'' opts) = [CallGroq, CallGemini])"
proof -
  have a: "groq (initializeServices w s) \<and> groq_create w prompt opts = Inr cc \<longrightarrow>
      generate w s prompt ''auto'' opts =
        ([CallGroq],
         \<lparr> success = True, content = Text (groq_content cc), error = None,
           usage = cc_usage cc, fallback = False \<rparr>)"
    by (simp add: generate_cases Let_def generateWithGroq_def)
  have b: "choices cc = None \<or> choices cc = Some [] \<longrightarrow> groq_content cc = []"
    by (auto simp: groq_content_def first_choice_def js_or_def truthy_def Let_def)
  have c: "choices cc = Some (c # cs) \<and>
        (choice_message c = None \<or> choice_message c = Some \<lparr> msg_content = None \<rparr>) \<longrightarrow>
          groq_content cc = (case choice_text c of None \<Rightarrow> [] | Some t \<Rightarrow> t)"
    by (auto simp: groq_content_def first_choice_def js_or_def truthy_def Let_def
        split: option.splits)
  have d: "\<not> groq (initializeServices w s) \<or> groq_create w prompt opts = Inl msg \<longrightarrow>
        \<not> success (generateWithGroq w s prompt opts)
        \<and> fst (generate w s prompt ''auto'' opts) = [CallGroq, CallGemini]"
    by (auto simp: generate_cases Let_def generateWithGroq_def failure_def)
  from a b c d show ?thesis by (intro conjI)
qed

theorem groq_shape_and_failure_witness:
  "groq (initializeServices world_groq_empty AIService_new)
   \<and> groq_create world_groq_empty ''hello'' no_options = Inr \<lparr> choices = None, cc_usage = None \<rparr>
   \<and> generate world_groq_empty AIService_new ''hello'' ''auto'' no_options =
        ([CallGroq],
         \<lparr> success = True, content = Text [], error = None, usage = None, fallback = False \<rparr>)
   \<and> groq_create world_down ''hello'' no_options = Inl ''Connection error.''
   \<and> fst (generate world_down AIService_new ''hello'' ''auto'' no_options) = [CallGroq, CallGemini]"
proof -
  have r: "groq_create world_groq_empty ''hello'' no_options = Inr \<lparr> choices = None, cc_usage = None \<rparr>"
    by (simp add: world_groq_empty_def)
  have f: "groq_create world_down ''hello'' no_options = Inl ''Connection error.''"
    by (simp add: world_down_def)
  from groq_shape_and_failure [of world_groq_empty AIService_new "''hello''" no_options
      "\<lparr> choices = None, cc_usage = None \<rparr>" "\<lparr> choice_message = None, choice_text = None \<rparr>"
      "[]" "''Connection error.''"] groq_ready_empty r
  have a: "generate world_groq_empty AIService_new ''hello'' ''auto'' no_options =
        ([CallGroq],
         \<lparr> success = True, content = Text [], error = None, usage = None, fallback = False \<rparr>)"
    by simp
  from groq_shape_and_failure [of world_down AIService_new "''hello''" no_options
      "\<lparr> choices = None, cc_usage = None \<rparr>" "\<lparr> choice_message = None, choice_text = None \<rparr>"
      "[]" "''Connection error.''"] f
  have b: "fst (generate world_down AIService_new ''hello'' ''auto'' no_options) = [CallGroq, CallGemini]"
    by simp
  from groq_ready_empty r a f b show ?thesis by (intro conjI)
qed

subsection \<open>The fallback content depends on the arguments alone\<close>

text \<open>
  C5. The synthesized fallback content is deterministic. None of
  \<open>generateStructuredFallback\<close>, \<open>generateFallbackStudyPlan\<close>, \<open>generateFallbackQuiz\<close> and
  \<open>generateFallbackExplanation\<close> reads the environment, the service object, a clock or a
  random source: each is a function of its arguments. So any two runs that reach the
  fallback, in whatever environments, service states, provider arguments and options,
  return identical content for the same prompt (through \<open>generate\<close>), the same topic,
  difficulty and count (through \<open>generateQuizQuestions\<close>), the same subject, level,
  duration and learning style (through \<open>generateDetailedStudyPlan\<close>) and the same
  concept and level (through \<open>explainConcept\<close>).
\<close>

theorem fallback_content_deterministic:
  "(fallback (snd (generate w1 s1 prompt p1 o1)) \<and> fallback (snd (generate w2 s2 prompt p2 o2))
      \<longrightarrow> content (snd (generate w1 s1 prompt p1 o1)) = content (snd (generate w2 s2 prompt p2 o2))
          \<and> content (snd (generate w1 s1 prompt p1 o1)) = generateStructuredFallback prompt)
   \<and> ((\<forall>p opts. \<not> success (generateWithGemini w1 s1 p opts))
        \<and> (\<forall>p opts. \<not> success (generateWithGemini w2 s2 p opts))
      \<longrightarrow> content (snd (generateQuizQuestions w1 s1 topic difficulty count))
            = content (snd (generateQuizQuestions w2 s2 topic difficulty count))
          \<and> content (snd (generateQuizQuestions w1 s1 topic difficulty count))
            = Quiz (generateFallbackQuiz topic (Some difficulty) (Some count)))
   \<and> ((\<forall>p opts. \<not> success (generateWithGroq w1 s1 p opts) \<and> \<not> success (generateWithGemini w1 s1 p opts))
        \<and> (\<forall>p opts. \<not> success (generateWithGroq w2 s2 p opts) \<and> \<not> success (generateWithGemini w2 s2 p opts))
      \<longrightarrow> content (snd (generateDetailedStudyPlan w1 s1 subject level duration style))
            = content (snd (generateDetailedStudyPlan w2 s2 subject level duration style))
          \<and> content (snd (generateDetailedStudyPlan w1 s1 subject level duration style))
            = Plan (generateFallbackStudyPlan subject (Some level) (Some (parseDuration duration))
                      (Some style))
          \<and> content (snd (explainConcept w1 s1 concept level))
            = content (snd (explainConcept w2 s2 concept level)))"
proof -
  have g: "fallback (snd (generate w s prompt p opts)) \<Longrightarrow>
      content (snd (generate w s prompt p opts)) = generateStructuredFallback prompt" for w s p opts
    by (auto simp: generate_cases Let_def groq_result_not_fallback gemini_result_not_fallback
        split: if_splits)
  have q: "\<forall>p opts. \<not> success (generateWithGemini w s p opts) \<Longrightarrow>
      content (snd (generateQuizQuestions w s topic difficulty count))
        = Quiz (generateFallbackQuiz topic (Some difficulty) (Some count))" for w s
    by (simp add: generateQuizQuestions_def Let_def split_def generate_cases generateWithGemini_init)
  have d: "\<forall>p opts. \<not> success (generateWithGroq w s p opts) \<and> \<not> success (generateWithGemini w s p opts) \<Longrightarrow>
      content (snd (generateDetailedStudyPlan w s subject level duration style))
        = Plan (generateFallbackStudyPlan subject (Some level) (Some (parseDuration duration))
                      (Some style))" for w s
    by (simp add: generateDetailedStudyPlan_def Let_def split_def generate_cases)
  have e: "\<forall>p opts. \<not> success (generateWithGroq w s p opts) \<and> \<not> success (generateWithGemini w s p opts) \<Longrightarrow>
      content (snd (explainConcept w s concept level))
        = generateStructuredFallback (''Explain \"'' @ concept @ ''\" at '' @ level @ '' level:'' @ NL
            @ ''1. Definition'' @ NL
            @ ''2. Key principles'' @ NL
            @ ''3. Real-world examples'' @ NL
            @ ''4. Misconceptions'' @ NL
            @ ''5. Related concepts'')" for w s
    by (simp add: explainConcept_def Let_def split_def generate_cases generateWithGroq_init
        generateWithGemini_init)
  have A: "fallback (snd (generate w1 s1 prompt p1 o1)) \<and> fallback (snd (generate w2 s2 prompt p2 o2))
      \<longrightarrow> content (snd (generate w1 s1 prompt p1 o1)) = content (snd (generate w2 s2 prompt p2 o2))
          \<and> content (snd (generate w1 s1 prompt p1 o1)) = generateStructuredFallback prompt"
    using g [of w1 s1 p1 o1] g [of w2 s2 p2 o2] by simp
  have B: "(\<forall>p opts. \<not> success (generateWithGemini w1 s1 p opts))
        \<and> (\<forall>p opts. \<not> success (generateWithGemini w2 s2 p opts))
      \<longrightarrow> content (snd (generateQuizQuestions w1 s1 topic difficulty count))
            = content (snd (generateQuizQuestions w2 s2 topic difficulty count))
          \<and> content (snd (generateQuizQuestions w1 s1 topic difficulty count))
            = Quiz (generateFallbackQuiz topic (Some difficulty) (Some count))"
    using q [of w1 s1] q [of w2 s2] by simp
  have C: "(\<forall>p opts. \<not> success (generateWithGroq w1 s1 p opts) \<and> \<not> success (generateWithGemini w1 s1 p opts))
        \<and> (\<forall>p opts. \<not> success (generateWithGroq w2 s2 p opts) \<and> \<not> success (generateWithGemini w2 s2 p opts))
      \<longrightarrow> content (snd (generateDetailedStudyPlan w1 s1 subject level duration style))
            = content (snd (generateDetailedStudyPlan w2 s2 subject level duration style))
          \<and> content (snd (generateDetailedStudyPlan w1 s1 subject level duration style))
            = Plan (generateFallbackStudyPlan subject (Some level) (Some (parseDuration duration))
                      (Some style))
          \<and> content (snd (explainConcept w1 s1 concept level))
            = content (snd (explainConcept w2 s2 concept level))"
    using d [of w1 s1] d [of w2 s2] e [of w1 s1] e [of w2 s2] by simp
  from A B C show ?thesis by (intro conjI)
qed

theorem fallback_content_deterministic_witness:
  "fallback (snd (generate world_down AIService_new ''hello'' ''auto'' no_options))
   \<and> fallback (snd (generate world_no_keys AIService_new ''hello'' ''gemini''
                       (no_options\<lparr>maxTokens := Some 100\<rparr>)))
   \<and> content (snd (generate world_down AIService_new ''hello'' ''auto'' no_options))
       = content (snd (generate world_no_keys AIService_new ''hello'' ''gemini''
                         (no_options\<lparr>maxTokens := Some 100\<rparr>)))
   \<and> (\<forall>p opts. \<not> success (generateWithGroq world_down AIService_new p opts))
   \<and> (\<forall>p opts. \<not> success (generateWithGemini world_down AIService_new p opts))
   \<and> (\<forall>p opts. \<not> success (generateWithGroq world_no_keys AIService_new p opts))
   \<and> (\<forall>p opts. \<not> success (generateWithGemini world_no_keys AIService_new p opts))
   \<and> content (snd (generateQuizQuestions world_down AIService_new ''Go'' ''beginner'' 2))
       = content (snd (generateQuizQuestions world_no_keys AIService_new ''Go'' ''beginner'' 2))
   \<and> content (snd (generateDetailedStudyPlan world_down AIService_new ''Go'' ''beginner''
                      (Some ''3 days'') ''visual''))
       = content (snd (generateDetailedStudyPlan world_no_keys AIService_new ''Go'' ''beginner''
                         (Some ''3 days'') ''visual''))"
proof -
  have f1: "fallback (snd (generate world_down AIService_new ''hello'' ''auto'' no_options))"
    by (simp add: generate_cases Let_def groq_down gemini_down failure_def)
  have f2: "fallback (snd (generate world_no_keys AIService_new ''hello'' ''gemini''
                       (no_options\<lparr>maxTokens := Some 100\<rparr>)))"
    by (simp add: generate_cases Let_def gemini_no_keys failure_def)
  have d1: "\<forall>p opts. \<not> success (generateWithGroq world_down AIService_new p opts)"
    by (simp add: groq_down failure_def)
  have d2: "\<forall>p opts. \<not> success (generateWithGemini world_down AIService_new p opts)"
    by (simp add: gemini_down failure_def)
  have n1: "\<forall>p opts. \<not> success (generateWithGroq world_no_keys AIService_new p opts)"
    by (simp add: groq_no_keys failure_def)
  have n2: "\<forall>p opts. \<not> success (generateWithGemini world_no_keys AIService_new p opts)"
    by (simp add: gemini_no_keys failure_def)
  note t = fallback_content_deterministic [of world_down AIService_new "''hello''" "''auto''"
      no_options world_no_keys AIService_new "''gemini''" "no_options\<lparr>maxTokens := Some 100\<rparr>"
      "''Go''" "''beginner''" 2 "''Go''" "''beginner''" "Some ''3 days''" "''visual''"
      "''closure''"]
  from t f1 f2 have a: "content (snd (generate world_down AIService_new ''hello'' ''auto'' no_options))
       = content (snd (generate world_no_keys AIService_new ''hello'' ''gemini''
                         (no_options\<lparr>maxTokens := Some 100\<rparr>)))"
    by blast
  from t d2 n2 have b: "content (snd (generateQuizQuestions world_down AIService_new ''Go'' ''beginner'' 2))
       = content (snd (generateQuizQuestions world_no_keys AIService_new ''Go'' ''beginner'' 2))"
    by blast
  from t d1 d2 n1 n2 have c: "content (snd (generateDetailedStudyPlan world_down AIService_new ''Go'' ''beginner''
                      (Some ''3 days'') ''visual''))
       = content (snd (generateDetailedStudyPlan world_no_keys AIService_new ''Go'' ''beginner''
                         (Some ''3 days'') ''visual''))"
    by blast
  from f1 f2 a d1 d2 n1 n2 b c show ?thesis by (intro conjI)
qed

subsection \<open>The fallback study plan\<close>

lemma plan_loop_eq:
  "plan_loop subject level d ls dy plan = plan @ map (plan_entry subject level d ls) [dy..d]"
proof (induction subject level d ls dy plan rule: plan_loop.induct)
  case (1 subject level d ls dy plan)
  show ?case
  proof (cases "dy \<le> d")
    case True
    have "[dy..d] = dy # [dy + 1..d]" using True by (simp add: upto_rec1)
    with 1 True show ?thesis by (subst plan_loop.simps) simp
  next
    case False
    then show ?thesis by (subst plan_loop.simps) simp
  qed
qed

lemma generateFallbackStudyPlan_map:
  "generateFallbackStudyPlan subject level (Some d) ls = map (plan_entry subject level d ls) [1..d]"
  by (simp add: generateFallbackStudyPlan_def plan_loop_eq)

text \<open>The two thresholds, over the reals and over the rationals, are integer comparisons.\<close>

lemma third_le_real: "(real_of_int k \<le> real_of_int d / 3) = (3 * k \<le> d)"
proof -
  have "(real_of_int k \<le> real_of_int d / 3) = (real_of_int (3 * k) \<le> real_of_int d)"
    by (simp add: field_simps)
  then show ?thesis by (simp only: of_int_le_iff)
qed

lemma two_thirds_le_real: "(real_of_int k \<le> 2 * real_of_int d / 3) = (3 * k \<le> 2 * d)"
proof -
  have "(real_of_int k \<le> 2 * real_of_int d / 3) = (real_of_int (3 * k) \<le> real_of_int (2 * d))"
    by (simp add: field_simps)
  then show ?thesis by (simp only: of_int_le_iff)
qed

lemma third_le_rat: "((of_int k :: rat) \<le> of_int d / 3) = (3 * k \<le> d)"
proof -
  have "((of_int k :: rat) \<le> of_int d / 3) = ((of_int (3 * k) :: rat) \<le> of_int d)"
    by (simp add: field_simps)
  then show ?thesis by (simp only: of_int_le_iff)
qed

lemma two_thirds_le_rat: "((of_int k :: rat) \<le> (of_int d * 2) / 3) = (3 * k \<le> 2 * d)"
proof -
  have "((of_int k :: rat) \<le> (of_int d * 2) / 3) = ((of_int (3 * k) :: rat) \<le> of_int (2 * d))"
    by (simp add: field_simps)
  then show ?thesis by (simp only: of_int_le_iff)
qed

lemma difficulty_of_real:
  "difficulty_of d k =
     (if real_of_int k \<le> real_of_int d / 3 then ''Basic''
      else if real_of_int k \<le> 2 * real_of_int d / 3 then ''Intermediate'' else ''Advanced'')"
  unfolding difficulty_of_def third_le_rat two_thirds_le_rat third_le_real two_thirds_le_real
  by (rule refl)

lemma num_to_string_2: "num_to_string 2 = ''2''"
  by (simp add: num_to_string_def nat_digits.simps digit_char_def Let_def)

text \<open>
  C6. For every subject, level, learning style and every whole number of days
  \<open>d \<ge> 1\<close>, \<open>generateFallbackStudyPlan\<close> returns exactly \<open>d\<close> entries, their \<open>day\<close> fields
  are \<open>1, \<dots>, d\<close> in this order, and the entry of day \<open>k\<close> is the fixed template with the
  subject interpolated, where the difficulty is \<open>Basic\<close> for \<open>k \<le> d / 3\<close>,
  \<open>Intermediate\<close> for \<open>k \<le> 2 d / 3\<close> and \<open>Advanced\<close> otherwise (divisions of real numbers).
\<close>

theorem fallback_study_plan_shape:
  assumes "1 \<le> d"
  shows "length (generateFallbackStudyPlan subject level (Some d) learningStyle) = nat d
    \<and> map day (generateFallbackStudyPlan subject level (Some d) learningStyle) = [1..d]
    \<and> (\<forall>i < nat d.
         generateFallbackStudyPlan subject level (Some d) learningStyle ! i =
           (let k = int i + 1;
                n = num_to_string k;
                difficulty = (if real_of_int k \<le> real_of_int d / 3 then ''Basic''
                              else if real_of_int k \<le> 2 * real_of_int d / 3 then ''Intermediate''
                              else ''Advanced'')
            in \<lparr> day = k,
                 title = ''Day '' @ n @ '': '' @ subject @ '' - '' @ difficulty @ '' Concepts'',
                 objectives =
                   [''Master fundamentals for Day '' @ n,
                    ''Apply '' @ difficulty @ '' '' @ subject @ '' concepts'',
                    ''Do practical exercises'',
                    ''Prepare for next stage''],
                 overview = ''Day '' @ n @ '' focuses on '' @ difficulty @ '' '' @ subject
                    @ '' concepts at '' @ interp level @ '' level with '' @ interp learningStyle
                    @ '' learning approach.'',
                 keyPoints = [''Concept '' @ n @ ''-1'', ''Concept '' @ n @ ''-2''],
                 examples = [''Example '' @ n @ ''-1'', ''Example '' @ n @ ''-2''],
                 exercises = [''Exercise '' @ n @ ''-1'', ''Exercise '' @ n @ ''-2''],
                 resources = [\<lparr> res_type = ''article'', res_title = subject @ '' Guide Day '' @ n \<rparr>],
                 totalTime = 120 \<rparr>))"
    (is "?len \<and> ?days \<and> (\<forall>i < nat d. ?plan ! i = ?entry i)")
proof -
  have len: ?len
    by (simp add: generateFallbackStudyPlan_map)
  have days: ?days
    by (simp add: generateFallbackStudyPlan_map plan_entry_def Let_def comp_def)
  have nth: "?plan ! i = plan_entry subject level d learningStyle (int i + 1)" if "i < nat d" for i
    using that by (simp add: generateFallbackStudyPlan_map nth_upto add.commute)
  have entry: "plan_entry subject level d learningStyle (int i + 1) = ?entry i" for i
    unfolding plan_entry_def Let_def difficulty_of_real by (rule refl)
  have all: "\<forall>i < nat d. ?plan ! i = ?entry i"
    using nth entry by simp
  from len days all show ?thesis by (intro conjI)
qed

theorem fallback_study_plan_shape_witness:
  "(1::int) \<le> 4
   \<and> length (generateFallbackStudyPlan ''Go'' (Some ''beginner'') (Some 4) (Some ''visual'')) = 4
   \<and> map day (generateFallbackStudyPlan ''Go'' (Some ''beginner'') (Some 4) (Some ''visual''))
       = [1, 2, 3, 4]
   \<and> title (generateFallbackStudyPlan ''Go'' (Some ''beginner'') (Some 4) (Some ''visual'') ! 1)
       = ''Day 2: Go - Intermediate Concepts''"
proof -
  have h: "(1::int) \<le> 4" by simp
  have u: "[1..4::int] = [1, 2, 3, 4]" by (simp add: upto_rec1)
  note t = fallback_study_plan_shape [OF h, of "''Go''" "Some ''beginner''" "Some ''visual''"]
  from t have a: "length (generateFallbackStudyPlan ''Go'' (Some ''beginner'') (Some 4) (Some ''visual'')) = 4"
    by simp
  from t have b: "map day (generateFallbackStudyPlan ''Go'' (Some ''beginner'') (Some 4) (Some ''visual''))
      = [1, 2, 3, 4]"
    by (simp only: u)
  from t have "\<forall>i < nat 4.
      title (generateFallbackStudyPlan ''Go'' (Some ''beginner'') (Some 4) (Some ''visual'') ! i)
        = ''Day '' @ num_to_string (int i + 1) @ '': Go - ''
          @ (if real_of_int (int i + 1) \<le> real_of_int 4 / 3 then ''Basic''
             else if real_of_int (int i + 1) \<le> 2 * real_of_int 4 / 3 then ''Intermediate''
             else ''Advanced'') @ '' Concepts''"
    by (simp add: Let_def)
  then have c: "title (generateFallbackStudyPlan ''Go'' (Some ''beginner'') (Some 4) (Some ''visual'') ! 1)
       = ''Day 2: Go - Intermediate Concepts''"
    by (simp add: num_to_string_2)
  from h a b c show ?thesis by (intro conjI)
qed

section \<open>Properties of the controllers\<close>

subsection \<open>The chat handler\<close>

lemma call_continueConversation_throws:
  "call_continueConversation msgs ctx
     = Inl (TypeError ''aiService.continueConversation is not a function'')"
  by (simp add: call_continueConversation_def continueConversation_def)

text \<open>
  C3 says that the chat handler answers every request with a success response, provider
  failures being absorbed by the fallback chain. The code does not: \<open>chat\<close> calls
  \<open>aiService.continueConversation\<close>, which the service does not define, so the call
  throws, the handler's \<open>catch\<close> takes over, and every chat request, whatever the
  providers would have answered, gets status 500 with \<open>success = false\<close> and the message
  \<open>Internal server error\<close>.
\<close>

theorem chat_always_internal_error:
  "chat w now req = refuse 500 ''Internal server error''"
  by (simp add: chat_def at_boundary_def and_then_def call_continueConversation_throws Let_def
      split: option.splits sum.splits)

subsection \<open>The study-group handlers\<close>

text \<open>What the handlers do as C7 says: a thrown error ends in the generic 500 response.\<close>

lemma handler_catches: "at_boundary (Inl e) = refuse 500 ''Internal server error''"
  by (simp add: at_boundary_def)

lemma createStudyGroup_missing:
  "req_body req = Some body \<Longrightarrow> falsy (b_name body) \<or> falsy (b_subject body) \<Longrightarrow>
   createStudyGroup w create req = refuse 400 ''Name and subject are required''"
  by (auto simp: createStudyGroup_def at_boundary_def)

lemma createStudyGroup_throws:
  "req_body req = Some body \<Longrightarrow> \<not> falsy (b_name body) \<Longrightarrow> \<not> falsy (b_subject body) \<Longrightarrow>
   create \<lparr> ng_name = b_name body, ng_description = b_description body,
            ng_subject = b_subject body,
            ng_tags = (case b_tags body of None \<Rightarrow> [] | Some ts \<Rightarrow> ts),
            ng_creator = req_userId req,
            ng_members = [(req_userId req, ''admin'')],
            ng_maxMembers = or_default (b_maxMembers body) (Num 50),
            ng_isPrivate = (b_privacy body = Str ''private'') \<rparr> = Inl e \<Longrightarrow>
   createStudyGroup w create req = refuse 500 ''Internal server error''"
  by (simp add: createStudyGroup_def at_boundary_def and_then_def)

lemma createStudyGroup_status:
  "status (createStudyGroup w create req) \<in> {201, 400, 500}"
  by (auto simp: createStudyGroup_def at_boundary_def and_then_def refuse_def
      split: option.splits sum.splits)

lemma joinStudyGroup_status:
  "status (joinStudyGroup w now req) \<in> {200, 400, 403, 404, 500}"
  by (auto simp: joinStudyGroup_def at_boundary_def and_then_def refuse_def Let_def
      split: option.splits sum.splits)

lemma joinStudyGroup_not_found:
  "sg_findById w (req_id req) = Inr None \<Longrightarrow>
   joinStudyGroup w now req = refuse 404 ''Study group not found''"
  by (simp add: joinStudyGroup_def at_boundary_def and_then_def Let_def)

lemma joinStudyGroup_throws:
  "sg_findById w (req_id req) = Inl e \<Longrightarrow>
   joinStudyGroup w now req = refuse 500 ''Internal server error''"
  by (simp add: joinStudyGroup_def at_boundary_def and_then_def Let_def)

lemma joinStudyGroup_full:
  "sg_findById w (req_id req) = Inr (Some g) \<Longrightarrow> req_userId req = IdObj u \<Longrightarrow>
   maxMembers g \<le> int (length (members g)) \<Longrightarrow>
   joinStudyGroup w now req = refuse 400 ''Study group is full''"
  by (simp add: joinStudyGroup_def at_boundary_def and_then_def Let_def str_strict_eq_def
      list_ex_iff)

text \<open>
  With the user id that the authentication middleware provides, an ObjectId, the
  membership test of \<open>joinStudyGroup\<close> is never true.
\<close>

lemma joinStudyGroup_objectid_never_member:
  "req_userId req = IdObj u \<Longrightarrow>
   joinStudyGroup w now req \<noteq> refuse 400 ''Already a member of this group''"
  by (auto simp: joinStudyGroup_def at_boundary_def and_then_def refuse_def Let_def
      str_strict_eq_def list_ex_iff split: option.splits sum.splits)

text \<open>
  C7 says that joining a group one is already a member of is refused with status 400.
  The code does not refuse it: the authenticated user of \<open>join_request\<close> is the member
  \<open>alice\<close> of \<open>group0\<close>, a public group with room left, and \<open>joinStudyGroup\<close> answers 200
  and stores the user a second time. (The test compares \<open>member.user.toString()\<close> with
  \<open>req.userId\<close> by \<open>===\<close>, a string with an ObjectId.)
\<close>

theorem join_by_member_accepted:
  "member_user alice = id_toString (req_userId join_request)
   \<and> sg_findById sg_world0 (req_id join_request) = Inr (Some group0)
   \<and> members group0 = [alice]
   \<and> joinStudyGroup sg_world0 9000 join_request =
       \<lparr> status = 200, r_success = True,
         r_message = Some ''Successfully joined the study group'',
         r_payload = Some (group0\<lparr>members :=
           [alice, \<lparr> member_user = ''64a000000000000000000001'', member_role = ''member'',
                     member_joinedAt = Some 9000, member_isActive = True \<rparr>]\<rparr>) \<rparr>"
  by (simp add: joinStudyGroup_def at_boundary_def and_then_def Let_def join_request_def
      sg_world0_def group0_def alice_def authenticated_userId_def id_toString_def
      str_strict_eq_def)

section \<open>Properties of the study-group document\<close>

subsection \<open>The chat history\<close>

text \<open>
  C9. After every call of \<open>addChatMessage\<close> the chat history has at most 1000 messages.
  It is the old history with the new message appended, cut from the front: the new
  message is its last element, nothing is dropped while the old history has fewer than
  1000 messages, and from then on exactly the 1000 newest messages remain, in their
  order.
\<close>

theorem chat_history_bounded:
  "length (chat_messages (fst (addChatMessage w now g userId txt ty))) \<le> 1000
   \<and> chat_messages (fst (addChatMessage w now g userId txt ty))
       = drop (length (chat_messages g) + 1 - 1000)
           (chat_messages g @ [\<lparr> chat_user = id_toString userId, chat_content = txt,
                                  chat_type = ty, chat_createdAt = now \<rparr>])
   \<and> last (chat_messages (fst (addChatMessage w now g userId txt ty)))
       = \<lparr> chat_user = id_toString userId, chat_content = txt, chat_type = ty,
           chat_createdAt = now \<rparr>
   \<and> (length (chat_messages g) < 1000 \<longrightarrow>
        chat_messages (fst (addChatMessage w now g userId txt ty))
          = chat_messages g @ [\<lparr> chat_user = id_toString userId, chat_content = txt,
                                  chat_type = ty, chat_createdAt = now \<rparr>])
   \<and> (1000 \<le> length (chat_messages g) \<longrightarrow>
        length (chat_messages (fst (addChatMessage w now g userId txt ty))) = 1000
        \<and> chat_messages (fst (addChatMessage w now g userId txt ty))
          = drop (length (chat_messages g) - 999) (chat_messages g)
            @ [\<lparr> chat_user = id_toString userId, chat_content = txt,
                  chat_type = ty, chat_createdAt = now \<rparr>])"
  (is "?A \<and> ?B \<and> ?C \<and> ?D \<and> ?E")
proof -
  have A: ?A by (simp add: addChatMessage_def Let_def slice_last_def)
  have B: ?B by (simp add: addChatMessage_def Let_def slice_last_def)
  have C: ?C by (simp add: addChatMessage_def Let_def slice_last_def)
  have D: ?D by (simp add: addChatMessage_def Let_def slice_last_def)
  have E: ?E by (auto simp: addChatMessage_def Let_def slice_last_def)
  from A B C D E show ?thesis by (intro conjI)
qed

theorem chat_history_bounded_witness:
  "1000 \<le> length (chat_messages group_full_chat)
   \<and> length (chat_messages (fst (addChatMessage sg_world0 7 group_full_chat bob ''bye'' ''text'')))
       = 1000
   \<and> chat_messages (fst (addChatMessage sg_world0 7 group_full_chat bob ''bye'' ''text''))
       = replicate 999 hello_entry
         @ [\<lparr> chat_user = ''64a000000000000000000002'', chat_content = ''bye'',
               chat_type = ''text'', chat_createdAt = 7 \<rparr>]"
  using chat_history_bounded [of sg_world0 7 group_full_chat bob "''bye''" "''text''"]
  by (simp add: group_full_chat_def bob_def authenticated_userId_def id_toString_def)

subsection \<open>Joining a session\<close>

lemma find_replace_first:
  "find P xs = Some x \<Longrightarrow> P y \<Longrightarrow> find P (replace_first P y xs) = Some y"
  by (induction xs) (auto split: if_splits)

lemma find_Some_holds: "find P xs = Some x \<Longrightarrow> P x"
  by (induction xs) (auto split: if_splits)

lemma find_None_filter: "find P xs = None \<Longrightarrow> filter P xs = []"
  by (induction xs) (auto split: if_splits)

lemma find_Some_filter: "find P xs = Some x \<Longrightarrow> filter P xs \<noteq> []"
  by (induction xs) (auto split: if_splits)

text \<open>What a successful call does to the attendees of the session.\<close>

lemma joinSession_result:
  assumes "joinSession w j n g sessionId userId = Inr (g1, r1)"
  shows "\<exists>s s2. session_by_id g sessionId = Some s \<and> session_by_id g1 sessionId = Some s2
    \<and> attendees s2 =
        (if find (\<lambda>a. attendee_user a = id_toString userId) (attendees s) = None
         then attendees s @ [\<lparr> attendee_user = id_toString userId,
                               attendee_joinedAt = Some j, attendee_leftAt = None \<rparr>]
         else attendees s)"
proof -
  from assms obtain s where s: "session_by_id g sessionId = Some s"
    by (auto simp: joinSession_def split: option.splits)
  have P: "session_id s = id_toString sessionId"
    using s find_Some_holds [of "\<lambda>s. session_id s = id_toString sessionId" "sessions g" s]
    by (simp add: session_by_id_def)
  show ?thesis
    using assms s P
    by (auto simp: joinSession_def Let_def session_by_id_def find_replace_first
        split: option.splits if_splits)
qed

text \<open>
  C10 as stated fails: a session that already lists the user twice still lists the user
  twice after two calls of \<open>joinSession\<close>, not exactly once.
\<close>

theorem joinSession_duplicates_counterexample:
  "joinSession sg_world0 6000 6001 group_twice session_key bob
     = Inr (group_twice_live, Inr group_twice_live)
   \<and> joinSession sg_world0 7000 7001 group_twice_live session_key bob
     = Inr (group_twice_live, Inr group_twice_live)
   \<and> entries_of group_twice_live session_key bob = [bob_entry, bob_entry]"
  by (simp add: joinSession_def session_by_id_def entries_of_def Let_def group_twice_def
      group_twice_live_def group0_def session0_def bob_entry_def session_key_def bob_def
      authenticated_userId_def id_toString_def sg_world0_def)

text \<open>
  C10, amended. Joining is idempotent on the attendee list: when a call of \<open>joinSession\<close>
  returns, a second call with the same session and user, at any later time, returns
  too and leaves the attendee list of the session exactly as the first call left it.
  The first call adds an entry for the user only if there was none, so the number of the
  user's entries is the number before the calls, or one if that was zero; the user has
  exactly one entry after both calls whenever the session listed the user at most once
  before them.
\<close>

theorem joinSession_idempotent:
  assumes "joinSession w j1 n1 g sessionId userId = Inr (g1, r1)"
  shows "\<exists>g2 r2. joinSession w j2 n2 g1 sessionId userId = Inr (g2, r2)
    \<and> attendees_of g2 sessionId = attendees_of g1 sessionId
    \<and> entries_of g2 sessionId userId = entries_of g1 sessionId userId
    \<and> length (entries_of g1 sessionId userId) = max 1 (length (entries_of g sessionId userId))
    \<and> (length (entries_of g sessionId userId) \<le> 1 \<longrightarrow>
          length (entries_of g2 sessionId userId) = 1)"
proof -
  let ?P = "\<lambda>a. attendee_user a = id_toString userId"
  from joinSession_result [OF assms] obtain s s2 where
    s: "session_by_id g sessionId = Some s" and s2: "session_by_id g1 sessionId = Some s2"
    and att: "attendees s2 =
        (if find ?P (attendees s) = None
         then attendees s @ [\<lparr> attendee_user = id_toString userId,
                               attendee_joinedAt = Some j1, attendee_leftAt = None \<rparr>]
         else attendees s)"
    by blast
  have present: "find ?P (attendees s2) \<noteq> None"
    by (cases "find ?P (attendees s) = None") (auto simp: att find_None_iff)
  obtain g2 r2 where second: "joinSession w j2 n2 g1 sessionId userId = Inr (g2, r2)"
    using s2 by (simp add: joinSession_def Let_def)
  from joinSession_result [OF second] obtain s3 where
    s3: "session_by_id g2 sessionId = Some s3" and att3: "attendees s3 = attendees s2"
    using s2 present by auto
  have same: "attendees_of g2 sessionId = attendees_of g1 sessionId"
    by (simp add: attendees_of_def s2 s3 att3)
  have same_entries: "entries_of g2 sessionId userId = entries_of g1 sessionId userId"
    by (simp add: entries_of_def s2 s3 att3)
  have count: "length (entries_of g1 sessionId userId) = max 1 (length (entries_of g sessionId userId))"
  proof (cases "find ?P (attendees s) = None")
    case True
    then show ?thesis by (simp add: entries_of_def s s2 att find_None_filter)
  next
    case False
    then have "filter ?P (attendees s) \<noteq> []" by (auto dest: find_Some_filter)
    then have "1 \<le> length (filter ?P (attendees s))" by (cases "filter ?P (attendees s)") auto
    with False show ?thesis by (simp add: entries_of_def s s2 att)
  qed
  have one: "length (entries_of g sessionId userId) \<le> 1 \<longrightarrow>
          length (entries_of g2 sessionId userId) = 1"
    using count same_entries by auto
  from second same same_entries count one show ?thesis by blast
qed

theorem joinSession_idempotent_witness:
  "joinSession sg_world0 6000 6001 group_session session_key bob
     = Inr (group_joined, Inr group_joined)
   \<and> length (entries_of group_session session_key bob) \<le> 1
   \<and> (\<exists>g2 r2. joinSession sg_world0 7000 7001 group_joined session_key bob = Inr (g2, r2)
        \<and> attendees_of g2 session_key = attendees_of group_joined session_key
        \<and> length (entries_of g2 session_key bob) = 1)"
proof -
  have first: "joinSession sg_world0 6000 6001 group_session session_key bob
     = Inr (group_joined, Inr group_joined)"
    by (simp add: joinSession_def session_by_id_def Let_def group_session_def group_joined_def
        group0_def session0_def session_key_def bob_def authenticated_userId_def
        id_toString_def sg_world0_def)
  have none: "length (entries_of group_session session_key bob) \<le> 1"
    by (simp add: entries_of_def session_by_id_def group_session_def session0_def
        session_key_def id_toString_def)
  from joinSession_idempotent [OF first, of 7000 7001] none
  have "\<exists>g2 r2. joinSession sg_world0 7000 7001 group_joined session_key bob = Inr (g2, r2)
        \<and> attendees_of g2 session_key = attendees_of group_joined session_key
        \<and> length (entries_of g2 session_key bob) = 1"
    by blast
  with first none show ?thesis by (intro conjI)
qed

section \<open>Properties of the user store\<close>

lemma lower_char_idem:
  "(let n = (of_char (let m = (of_char c :: nat) in
                      if 65 \<le> m \<and> m \<le> 90 then char_of (m + 32) else c) :: nat)
    in if 65 \<le> n \<and> n \<le> 90 then char_of (n + 32)
       else (let m = (of_char c :: nat) in if 65 \<le> m \<and> m \<le> 90 then char_of (m + 32) else c))
   = (let m = (of_char c :: nat) in if 65 \<le> m \<and> m \<le> 90 then char_of (m + 32) else c)"
  by (auto simp: Let_def)

lemma toLowerCase_idem: "toLowerCase (toLowerCase s) = toLowerCase s"
  unfolding toLowerCase_def map_map comp_def
  by (rule map_cong [OF refl]) (rule lower_char_idem)

text \<open>Every stored email is in the form the schema's setter gives it.\<close>

lemma stored_emails_lowercase:
  "store_state w stored \<Longrightarrow> \<forall>v \<in> set stored. toLowerCase (u_email v) = u_email v"
proof (induction rule: store_state.induct)
  case empty_store
  then show ?case by simp
next
  case (after_save stored u)
  then show ?case
    by (auto simp: user_save_def Let_def apply_setters_def toLowerCase_idem split: option.splits)
qed

lemma carol_lower: "toLowerCase ''Carol@Example.com'' = ''carol@example.com''"
  by code_simp

lemma carol_saved: "user_save store_world0 [] carol = (Inr carol_stored, [carol_stored])"
  by (simp add: user_save_def store_world0_def carol_def carol_stored_def apply_setters_def
      validation_errors_def duplicate_keys_def js_trim_def is_space_def carol_lower Let_def)

text \<open>
  C8. In every state of the user store that holds a user with email \<open>e\<close>, saving a new
  user with email \<open>e\<close> fails and the stored users are unchanged; when the new document
  passes the validators and the password hook, the failure is the duplicate key of the
  unique index on the email.
\<close>

theorem duplicate_email_rejected:
  assumes "store_state w stored" and "v \<in> set stored" and "u_email u = u_email v"
  shows "snd (user_save w stored u) = stored
    \<and> (\<exists>e. fst (user_save w stored u) = Inl e)
    \<and> (validation_errors w (apply_setters u) = [] \<and> bcrypt_hash w (u_password u) \<noteq> None \<longrightarrow>
         (\<exists>ks. fst (user_save w stored u) = Inl (DuplicateKey ks) \<and> ''email'' \<in> set ks))"
proof -
  from stored_emails_lowercase [OF assms(1)] assms(2)
  have low: "toLowerCase (u_email v) = u_email v" by blast
  have em: "u_email (apply_setters u) = u_email v"
    by (simp add: apply_setters_def assms(3) low)
  have pw: "u_password (apply_setters u) = u_password u"
    by (simp add: apply_setters_def)
  have dup: "''email'' \<in> set (duplicate_keys stored ((apply_setters u)\<lparr>u_password := h\<rparr>))" for h
    using assms(2) em by (auto simp: duplicate_keys_def list_ex_iff)
  then have dup_ne: "duplicate_keys stored ((apply_setters u)\<lparr>u_password := h\<rparr>) \<noteq> []" for h
    by (metis empty_iff list.set(1))
  show ?thesis
    using dup dup_ne
    by (auto simp: user_save_def Let_def pw split: option.splits)
qed

theorem duplicate_email_rejected_witness:
  "store_state store_world0 [carol_stored]
   \<and> carol_stored \<in> set [carol_stored]
   \<and> u_email carol_again = u_email carol_stored
   \<and> snd (user_save store_world0 [carol_stored] carol_again) = [carol_stored]
   \<and> (\<exists>e. fst (user_save store_world0 [carol_stored] carol_again) = Inl e)"
proof -
  have "store_state store_world0 (snd (user_save store_world0 [] carol))"
    by (rule after_save [OF empty_store])
  then have st: "store_state store_world0 [carol_stored]"
    by (simp add: carol_saved)
  have mem: "carol_stored \<in> set [carol_stored]" by simp
  have eq: "u_email carol_again = u_email carol_stored"
    by (simp add: carol_again_def carol_stored_def)
  from duplicate_email_rejected [OF st mem eq]
  have "snd (user_save store_world0 [carol_stored] carol_again) = [carol_stored]
    \<and> (\<exists>e. fst (user_save store_world0 [carol_stored] carol_again) = Inl e)"
    by blast
  with st mem eq show ?thesis by (intro conjI) auto
qed

end
